theory Spec2Isabelle
  imports Main "HOL-Library.Word"
begin

unbundle bit_operations_syntax

section \<open>Data model of \<^verbatim>\<open>services/task.go\<close>\<close>

subsection \<open>Object identifiers\<close>

text \<open>
  \<^verbatim>\<open>primitive.ObjectID\<close> is a byte array (\<^verbatim>\<open>[12]byte\<close>). \<^verbatim>\<open>IsZero\<close> holds when every
  byte is zero, \<^verbatim>\<open>Hex\<close> writes two lower-case hexadecimal digits per byte
  (high nibble first).
\<close>

type_synonym ObjectID = "8 word list"

definition IsZero :: "ObjectID \<Rightarrow> bool" where
  "IsZero oid = list_all (\<lambda>b. b = 0) oid"

definition hextable :: string where
  "hextable = ''0123456789abcdef''"

fun Hex :: "ObjectID \<Rightarrow> string" where
  "Hex [] = []"
| "Hex (b # bs) = hextable ! unat (drop_bit 4 b) # hextable ! unat (b AND 15) # Hex bs"

text \<open>
  Modelled from the spec: \<^verbatim>\<open>utils.IsObjectIdNull\<close> is not among the sources; the
  spec calls its negation "a non-empty target node identifier", the zero identifier
  being the empty one.
\<close>

definition IsObjectIdNull :: "ObjectID \<Rightarrow> bool" where
  "IsObjectIdNull oid = IsZero oid"

subsection \<open>Errors\<close>

text \<open>
  The sentinel errors of \<^verbatim>\<open>constants\<close> and \<^verbatim>\<open>mongo\<close> that the service names, compared
  with \<^verbatim>\<open>==\<close> in the source, and every other error of a collaborator with its message.
\<close>

datatype error =
    ErrStopped
  | ErrNoTasksAvailable
  | ErrEmptyValue
  | ErrForbidden
  | ErrAlreadyExists
  | ErrNotExists
  | ErrInvalidType
  | ErrTaskError
  | ErrTaskCancelled
  | ErrNoDocuments
  | ErrOther string

subsection \<open>Tasks, messages, nodes, runners\<close>

text \<open>
  The fields of \<^verbatim>\<open>model.Task\<close>, \<^verbatim>\<open>entity.TaskMessage\<close>, \<^verbatim>\<open>model.Node\<close> and
  \<^verbatim>\<open>TaskRunner\<close> that the service reads or writes. The three \<^verbatim>\<open>Id\<close> fields carry
  distinct names here; \<^verbatim>\<open>Id\<close> itself is the identity relation of HOL.
\<close>

record Task =
  task_Id :: ObjectID
  task_NodeId :: ObjectID
  task_Status :: string

record TaskMessage =
  msg_Id :: ObjectID

record Node =
  node_Id :: ObjectID

record TaskRunnerOptions =
  TaskId :: ObjectID

record TaskRunner =
  tid :: ObjectID

text \<open>
  Modelled from the spec: \<^verbatim>\<open>constants.StatusPending\<close> is not among the sources. The
  spec names the status Pending, the comment in \<^verbatim>\<open>Assign\<close> writes it \<^verbatim>\<open>"pending"\<close>.
\<close>

definition StatusPending :: string where
  "StatusPending = ''pending''"

subsection \<open>The service\<close>

text \<open>
  Go's \<^verbatim>\<open>int\<close> is a 64-bit signed integer on the platforms the service runs on:
  \<^verbatim>\<open>runnersCount++\<close> wraps and \<^verbatim>\<open>>=\<close> compares signed values. A nil
  \<^verbatim>\<open>*model.Node\<close> is \<open>None\<close>.
\<close>

record TaskServiceOptions =
  IsMaster :: bool
  MaxRunners :: "64 word"
  PollWaitSeconds :: "64 word"
  Node :: "Node option"

text \<open>
  \<^verbatim>\<open>sync.Map\<close> stores keys and values of type \<^verbatim>\<open>interface{}\<close>: a key carries its
  dynamic type, and two keys are equal only when dynamic type and value agree. The
  service uses keys of two Go types and stores values of one.
\<close>

datatype iface_key = ObjectIDKey ObjectID | StringKey string

datatype iface_val = TaskRunnerPtr TaskRunner | OtherVal

record TaskService =
  runnersCount :: "64 word"
  runners :: "iface_key \<rightharpoonup> iface_val"
  active :: bool
  opts :: TaskServiceOptions

definition NewTaskService :: "TaskServiceOptions option \<Rightarrow> TaskService" where
  "NewTaskService options =
    (let o1 = (case options of
                 None \<Rightarrow> \<lparr>IsMaster = False, MaxRunners = 0, PollWaitSeconds = 0, Node = None\<rparr>
               | Some o0 \<Rightarrow> o0);
         o2 = (if MaxRunners o1 = 0 then o1\<lparr>MaxRunners := 8\<rparr> else o1);
         o3 = (if PollWaitSeconds o2 = 0 then o2\<lparr>PollWaitSeconds := 5\<rparr> else o2)
     in \<lparr>runnersCount = 0, runners = Map.empty, active = False, opts = o3\<rparr>)"

subsection \<open>Collaborators\<close>

text \<open>
  The queue broker (\<^verbatim>\<open>redis.RedisClient\<close>), the persistence store
  (\<^verbatim>\<open>model.TaskService.GetById\<close>, \<^verbatim>\<open>Task.Add\<close>, \<^verbatim>\<open>Task.Save\<close>), the message codec
  (\<^verbatim>\<open>TaskMessage.ToString\<close>, \<^verbatim>\<open>json.Unmarshal\<close>) and the runner
  (\<^verbatim>\<open>NewTaskRunner\<close>, \<^verbatim>\<open>TaskRunner.Cancel\<close>, the runner's log reader) are not among the
  sources. The service is modelled for every behaviour they may have: each is a
  function on the state \<open>'w\<close> of the world outside the service that returns what the
  Go function returns. \<^verbatim>\<open>LPop\<close> returns its pair as it is, since \<^verbatim>\<open>Fetch\<close> reads the
  message even when the error is set.
\<close>

record 'w collab =
  RPush :: "string \<Rightarrow> string \<Rightarrow> 'w \<Rightarrow> error option \<times> 'w"
  LPop :: "string \<Rightarrow> 'w \<Rightarrow> (string \<times> error option) \<times> 'w"
  GetById :: "ObjectID \<Rightarrow> 'w \<Rightarrow> (error + Task) \<times> 'w"
  Add :: "Task \<Rightarrow> 'w \<Rightarrow> error option \<times> 'w"
  Save :: "Task \<Rightarrow> 'w \<Rightarrow> error option \<times> 'w"
  ToString :: "TaskMessage \<Rightarrow> error + string"
  Unmarshal :: "string \<Rightarrow> error + TaskMessage"
  NewTaskRunner :: "TaskRunnerOptions \<Rightarrow> 'w \<Rightarrow> (error + TaskRunner) \<times> 'w"
  RunnerCancel :: "TaskRunner \<Rightarrow> 'w \<Rightarrow> error option \<times> 'w"
  LogFind :: "TaskRunner \<Rightarrow> string \<Rightarrow> 64 word \<Rightarrow> 64 word \<Rightarrow> 'w \<Rightarrow> (string list \<times> error option) \<times> 'w"

text \<open>
  The calls made to the collaborators, the goroutines launched and the lines logged
  are recorded in the order the service makes them.
\<close>

datatype call =
    CallRPush string string
  | CallLPop string
  | CallGetById ObjectID
  | CallAdd Task
  | CallSave Task
  | CallNewTaskRunner TaskRunnerOptions
  | CallRunnerCancel TaskRunner
  | CallLogFind TaskRunner string "64 word" "64 word"

datatype logline =
    LogFetchTaskError error
  | LogRunTaskError error
  | LogTaskFinishedWithError ObjectID error
  | LogTaskCancelled ObjectID
  | LogTaskUnknownError ObjectID error
  | LogTaskFinished ObjectID

record 'w sys =
  svc :: TaskService
  world :: 'w
  calls :: "call list"
  launched :: "TaskRunner list"
  logged :: "logline list"

definition redis_RPush :: "'w collab \<Rightarrow> string \<Rightarrow> string \<Rightarrow> 'w sys \<Rightarrow> error option \<times> 'w sys" where
  "redis_RPush c q m st =
    (case RPush c q m (world st) of
       (r, w) \<Rightarrow> (r, st\<lparr>world := w, calls := calls st @ [CallRPush q m]\<rparr>))"

definition redis_LPop :: "'w collab \<Rightarrow> string \<Rightarrow> 'w sys \<Rightarrow> (string \<times> error option) \<times> 'w sys" where
  "redis_LPop c q st =
    (case LPop c q (world st) of
       (r, w) \<Rightarrow> (r, st\<lparr>world := w, calls := calls st @ [CallLPop q]\<rparr>))"

definition model_GetById :: "'w collab \<Rightarrow> ObjectID \<Rightarrow> 'w sys \<Rightarrow> (error + Task) \<times> 'w sys" where
  "model_GetById c i st =
    (case GetById c i (world st) of
       (r, w) \<Rightarrow> (r, st\<lparr>world := w, calls := calls st @ [CallGetById i]\<rparr>))"

definition model_Add :: "'w collab \<Rightarrow> Task \<Rightarrow> 'w sys \<Rightarrow> error option \<times> 'w sys" where
  "model_Add c t st =
    (case Add c t (world st) of
       (r, w) \<Rightarrow> (r, st\<lparr>world := w, calls := calls st @ [CallAdd t]\<rparr>))"

definition model_Save :: "'w collab \<Rightarrow> Task \<Rightarrow> 'w sys \<Rightarrow> error option \<times> 'w sys" where
  "model_Save c t st =
    (case Save c t (world st) of
       (r, w) \<Rightarrow> (r, st\<lparr>world := w, calls := calls st @ [CallSave t]\<rparr>))"

definition new_TaskRunner :: "'w collab \<Rightarrow> TaskRunnerOptions \<Rightarrow> 'w sys \<Rightarrow> (error + TaskRunner) \<times> 'w sys" where
  "new_TaskRunner c ro st =
    (case NewTaskRunner c ro (world st) of
       (r, w) \<Rightarrow> (r, st\<lparr>world := w, calls := calls st @ [CallNewTaskRunner ro]\<rparr>))"

definition runner_Cancel :: "'w collab \<Rightarrow> TaskRunner \<Rightarrow> 'w sys \<Rightarrow> error option \<times> 'w sys" where
  "runner_Cancel c r st =
    (case RunnerCancel c r (world st) of
       (e, w) \<Rightarrow> (e, st\<lparr>world := w, calls := calls st @ [CallRunnerCancel r]\<rparr>))"

definition runner_LogFind ::
  "'w collab \<Rightarrow> TaskRunner \<Rightarrow> string \<Rightarrow> 64 word \<Rightarrow> 64 word \<Rightarrow> 'w sys \<Rightarrow> (string list \<times> error option) \<times> 'w sys" where
  "runner_LogFind c r pat skip size' st =
    (case LogFind c r pat skip size' (world st) of
       (x, w) \<Rightarrow> (x, st\<lparr>world := w, calls := calls st @ [CallLogFind r pat skip size']\<rparr>))"

definition log_Error :: "logline \<Rightarrow> 'w sys \<Rightarrow> 'w sys" where
  "log_Error l st = st\<lparr>logged := logged st @ [l]\<rparr>"

section \<open>The operations of \<^verbatim>\<open>TaskService\<close>\<close>

subsection \<open>\<^verbatim>\<open>saveTask\<close> and \<^verbatim>\<open>Assign\<close>\<close>

definition saveTask :: "'w collab \<Rightarrow> Task \<Rightarrow> string \<Rightarrow> 'w sys \<Rightarrow> error option \<times> 'w sys" where
  "saveTask c t status st =
    (let status1 = (if status = [] then StatusPending else status);
         t1 = t\<lparr>task_Status := status1\<rparr>
     in case model_GetById c (task_Id t1) st of
          (Inl err, st1) \<Rightarrow>
            if err = ErrNoDocuments then model_Add c t1 st1 else (Some err, st1)
        | (Inr found, st1) \<Rightarrow> model_Save c t1 st1)"

definition queue_of :: "Task \<Rightarrow> string" where
  "queue_of t =
    (if IsObjectIdNull (task_NodeId t) then ''tasks:public''
     else ''tasks:node:'' @ Hex (task_NodeId t))"

definition Assign :: "'w collab \<Rightarrow> Task \<Rightarrow> 'w sys \<Rightarrow> error option \<times> 'w sys" where
  "Assign c t st =
    (if \<not> IsMaster (opts (svc st)) then (Some ErrForbidden, st)
     else case ToString c \<lparr>msg_Id = task_Id t\<rparr> of
            Inl err \<Rightarrow> (Some err, st)
          | Inr msgStr \<Rightarrow>
              (case redis_RPush c (queue_of t) msgStr st of
                 (Some err, st1) \<Rightarrow> (Some err, st1)
               | (None, st1) \<Rightarrow> saveTask c t StatusPending st1))"

subsection \<open>\<^verbatim>\<open>Fetch\<close>\<close>

text \<open>
  The part of \<^verbatim>\<open>Fetch\<close> after the pops: the message is not empty, it is decoded and
  the task record loaded.
\<close>

definition Fetch_load :: "'w collab \<Rightarrow> string \<Rightarrow> 'w sys \<Rightarrow> (error + Task) \<times> 'w sys" where
  "Fetch_load c msg st =
    (case Unmarshal c msg of
       Inl err \<Rightarrow> (Inl err, st)
     | Inr tMsg \<Rightarrow> model_GetById c (msg_Id tMsg) st)"

definition Fetch :: "'w collab \<Rightarrow> 'w sys \<Rightarrow> (error + Task) \<times> 'w sys" where
  "Fetch c st =
    (let ((msg, err), st1) =
           (case Node (opts (svc st)) of
              None \<Rightarrow> (([], None), st)
            | Some n \<Rightarrow> redis_LPop c (''tasks:node:'' @ Hex (node_Id n)) st)
     in if msg = [] then
          (case redis_LPop c ''tasks:public'' st1 of
             ((msg2, Some err2), st2) \<Rightarrow> (Inl err2, st2)
           | ((msg2, None), st2) \<Rightarrow>
               if msg2 = [] then (Inl ErrNoTasksAvailable, st2) else Fetch_load c msg2 st2)
        else Fetch_load c msg st1)"

subsection \<open>\<^verbatim>\<open>Run\<close>, the goroutine it launches, \<^verbatim>\<open>Cancel\<close> and \<^verbatim>\<open>FindLogs\<close>\<close>

definition Run :: "'w collab \<Rightarrow> ObjectID \<Rightarrow> 'w sys \<Rightarrow> error option \<times> 'w sys" where
  "Run c taskId st =
    (case runners (svc st) (ObjectIDKey taskId) of
       Some v \<Rightarrow> (Some ErrAlreadyExists, st)
     | None \<Rightarrow>
         (case new_TaskRunner c \<lparr>TaskId = taskId\<rparr> st of
            (Inl err, st1) \<Rightarrow> (Some err, st1)
          | (Inr r, st1) \<Rightarrow>
              (None,
               st1\<lparr>svc := (svc st1)\<lparr>runners := (runners (svc st1))(ObjectIDKey taskId \<mapsto> TaskRunnerPtr r),
                                     runnersCount := runnersCount (svc st1) + 1\<rparr>,
                   launched := launched st1 @ [r]\<rparr>)))"

text \<open>
  The body of the goroutine from the point where the blocking \<^verbatim>\<open>r.Run()\<close> has
  returned \<open>res\<close>: the runner has terminated.
\<close>

definition Run_goroutine :: "TaskRunner \<Rightarrow> error option \<Rightarrow> 'w sys \<Rightarrow> 'w sys" where
  "Run_goroutine r res st =
    (case res of
       Some err \<Rightarrow>
         (if err = ErrTaskError then log_Error (LogTaskFinishedWithError (tid r) err) st
          else if err = ErrTaskCancelled then log_Error (LogTaskCancelled (tid r)) st
          else log_Error (LogTaskUnknownError (tid r) err) st)
     | None \<Rightarrow> log_Error (LogTaskFinished (tid r)) st)"

definition getTaskRunner :: "string \<Rightarrow> 'w sys \<Rightarrow> error + TaskRunner" where
  "getTaskRunner taskId st =
    (case runners (svc st) (StringKey taskId) of
       None \<Rightarrow> Inl ErrNotExists
     | Some (TaskRunnerPtr r) \<Rightarrow> Inr r
     | Some OtherVal \<Rightarrow> Inl ErrInvalidType)"

definition Cancel :: "'w collab \<Rightarrow> string \<Rightarrow> 'w sys \<Rightarrow> error option \<times> 'w sys" where
  "Cancel c taskId st =
    (case getTaskRunner taskId st of
       Inl err \<Rightarrow> (Some err, st)
     | Inr r \<Rightarrow> runner_Cancel c r st)"

definition FindLogs ::
  "'w collab \<Rightarrow> string \<Rightarrow> string \<Rightarrow> 64 word \<Rightarrow> 64 word \<Rightarrow> 'w sys \<Rightarrow> (string list \<times> error option) \<times> 'w sys" where
  "FindLogs c taskId pat skip size' st =
    (case getTaskRunner taskId st of
       Inl err \<Rightarrow> (([], Some err), st)
     | Inr r \<Rightarrow> runner_LogFind c r pat skip size' st)"

subsection \<open>\<^verbatim>\<open>Init\<close> and \<^verbatim>\<open>Close\<close>\<close>

definition Close :: "'w sys \<Rightarrow> 'w sys" where
  "Close st = st\<lparr>svc := (svc st)\<lparr>active := False\<rparr>\<rparr>"

text \<open>
  One iteration of the loop of \<^verbatim>\<open>Init\<close>. While the loop sleeps the other goroutines
  run (a \<^verbatim>\<open>Close\<close>, a runner that ends, a producer that pushes): \<open>sleep\<close> is what they
  do to the state meanwhile. The iteration either returns from \<^verbatim>\<open>Init\<close> with an
  error or goes round again.
\<close>

datatype outcome = Return error | Continue

definition Init_iter :: "'w collab \<Rightarrow> ('w sys \<Rightarrow> 'w sys) \<Rightarrow> 'w sys \<Rightarrow> outcome \<times> 'w sys" where
  "Init_iter c sleep st =
    (if \<not> active (svc st) then (Return ErrStopped, st)
     else let st1 = sleep st in
       if \<not> active (svc st1) then (Return ErrStopped, st1)
       else if MaxRunners (opts (svc st1)) \<le>s runnersCount (svc st1) then (Continue, st1)
       else case Fetch c st1 of
              (Inl err, st2) \<Rightarrow>
                (Continue,
                 if err \<noteq> ErrNoTasksAvailable then log_Error (LogFetchTaskError err) st2 else st2)
            | (Inr t, st2) \<Rightarrow>
                if IsZero (task_Id t) then (Return ErrEmptyValue, st2)
                else (case Run c (task_Id t) st2 of
                        (Some err, st3) \<Rightarrow> (Continue, log_Error (LogRunTaskError err) st3)
                      | (None, st3) \<Rightarrow> (Continue, st3)))"

text \<open>
  The loop runs until an iteration returns, which may be never. It is given the
  interference of each of its sleeps in turn; \<open>None\<close> says that the loop is still
  running when the list is used up.
\<close>

fun Init_loop :: "'w collab \<Rightarrow> ('w sys \<Rightarrow> 'w sys) list \<Rightarrow> 'w sys \<Rightarrow> (error \<times> 'w sys) option" where
  "Init_loop c [] st = None"
| "Init_loop c (sleep # sleeps) st =
    (case Init_iter c sleep st of
       (Return err, st1) \<Rightarrow> Some (err, st1)
     | (Continue, st1) \<Rightarrow> Init_loop c sleeps st1)"

definition Init :: "'w collab \<Rightarrow> ('w sys \<Rightarrow> 'w sys) list \<Rightarrow> 'w sys \<Rightarrow> (error \<times> 'w sys) option" where
  "Init c sleeps st = Init_loop c sleeps (st\<lparr>svc := (svc st)\<lparr>active := True\<rparr>\<rparr>)"

section \<open>A broker and a store for running the service\<close>

text \<open>
  Modelled from the spec: the queue broker and the persistence store are external and
  not among the sources. The broker keeps one FIFO list per queue name: \<^verbatim>\<open>push\<close>
  appends at the tail, \<^verbatim>\<open>pop\<close> removes and returns the head, and returns the empty
  message at once when the queue is empty. The store answers \<^verbatim>\<open>getById\<close> with the
  record or with "no such record", \<^verbatim>\<open>insert\<close> adds a record and \<^verbatim>\<open>update\<close> replaces the
  record of the same identifier. An operation on a queue named in \<open>faults\<close> fails
  with the error given there and an empty result, as does a store operation when
  \<open>store_fault\<close> is set. A new runner is bound to the task identifier it is given; its
  cancellation succeeds and its log reader finds no line.
\<close>

record ext =
  queues :: "string \<Rightarrow> string list"
  faults :: "string \<Rightarrow> error option"
  tasks :: "Task list"
  store_fault :: "error option"

definition broker_RPush :: "string \<Rightarrow> string \<Rightarrow> ext \<Rightarrow> error option \<times> ext" where
  "broker_RPush q m w =
    (case faults w q of
       Some err \<Rightarrow> (Some err, w)
     | None \<Rightarrow> (None, w\<lparr>queues := (queues w)(q := queues w q @ [m])\<rparr>))"

definition broker_LPop :: "string \<Rightarrow> ext \<Rightarrow> (string \<times> error option) \<times> ext" where
  "broker_LPop q w =
    (case faults w q of
       Some err \<Rightarrow> (([], Some err), w)
     | None \<Rightarrow>
         (case queues w q of
            [] \<Rightarrow> (([], None), w)
          | m # ms \<Rightarrow> ((m, None), w\<lparr>queues := (queues w)(q := ms)\<rparr>)))"

definition store_GetById :: "ObjectID \<Rightarrow> ext \<Rightarrow> (error + Task) \<times> ext" where
  "store_GetById i w =
    (case store_fault w of
       Some err \<Rightarrow> (Inl err, w)
     | None \<Rightarrow>
         (case find (\<lambda>t. task_Id t = i) (tasks w) of
            None \<Rightarrow> (Inl ErrNoDocuments, w)
          | Some t \<Rightarrow> (Inr t, w)))"

definition store_Add :: "Task \<Rightarrow> ext \<Rightarrow> error option \<times> ext" where
  "store_Add t w =
    (case store_fault w of
       Some err \<Rightarrow> (Some err, w)
     | None \<Rightarrow> (None, w\<lparr>tasks := tasks w @ [t]\<rparr>))"

definition store_Save :: "Task \<Rightarrow> ext \<Rightarrow> error option \<times> ext" where
  "store_Save t w =
    (case store_fault w of
       Some err \<Rightarrow> (Some err, w)
     | None \<Rightarrow>
         (None, w\<lparr>tasks := map (\<lambda>x. if task_Id x = task_Id t then t else x) (tasks w)\<rparr>))"

text \<open>
  Modelled from the spec: the wire envelope carries only the task identifier, in a
  JSON-compatible text encoding that round-trips the identifier:
  \<^verbatim>\<open>{"id":"<hex>"}\<close>.
\<close>

definition dquote :: char where
  "dquote = CHR 0x22"

definition envelope_head :: string where
  "envelope_head = ''{'' @ [dquote] @ ''id'' @ [dquote] @ '':'' @ [dquote]"

definition envelope_tail :: string where
  "envelope_tail = [dquote] @ ''}''"

definition codec_ToString :: "TaskMessage \<Rightarrow> error + string" where
  "codec_ToString m = Inr (envelope_head @ Hex (msg_Id m) @ envelope_tail)"

definition hexval :: "char \<Rightarrow> nat option" where
  "hexval ch =
    (let n = (of_char ch :: nat) in
     if 48 \<le> n \<and> n \<le> 57 then Some (n - 48)
     else if 97 \<le> n \<and> n \<le> 102 then Some (n - 87)
     else if 65 \<le> n \<and> n \<le> 70 then Some (n - 55)
     else None)"

fun unhex :: "string \<Rightarrow> ObjectID option" where
  "unhex [] = Some []"
| "unhex [a] = None"
| "unhex (a # b # r) =
    (case (hexval a, hexval b, unhex r) of
       (Some x, Some y, Some bs) \<Rightarrow> Some (of_nat (16 * x + y) # bs)
     | _ \<Rightarrow> None)"

definition codec_Unmarshal :: "string \<Rightarrow> error + TaskMessage" where
  "codec_Unmarshal s =
    (if take 7 s = envelope_head \<and> 9 \<le> length s \<and> drop (length s - 2) s = envelope_tail then
       (case unhex (take (length s - 9) (drop 7 s)) of
          None \<Rightarrow> Inl (ErrOther ''invalid character'')
        | Some i \<Rightarrow> Inr \<lparr>msg_Id = i\<rparr>)
     else Inl (ErrOther ''invalid character''))"

definition spec_collab :: "ext collab" where
  "spec_collab =
    \<lparr>RPush = broker_RPush, LPop = broker_LPop,
     GetById = store_GetById, Add = store_Add, Save = store_Save,
     ToString = codec_ToString, Unmarshal = codec_Unmarshal,
     NewTaskRunner = (\<lambda>ro w. (Inr \<lparr>tid = TaskId ro\<rparr>, w)),
     RunnerCancel = (\<lambda>r w. (None, w)),
     LogFind = (\<lambda>r pat skip size' w. (([], None), w))\<rparr>"

definition ext0 :: ext where
  "ext0 = \<lparr>queues = (\<lambda>q. []), faults = (\<lambda>q. None), tasks = [], store_fault = None\<rparr>"

definition sys0 :: "TaskServiceOptions option \<Rightarrow> ext \<Rightarrow> ext sys" where
  "sys0 options w =
    \<lparr>svc = NewTaskService options, world = w, calls = [], launched = [], logged = []\<rparr>"

text \<open>
  The collaborators \<open>c\<close> with one change: the error of every pop of the queue \<open>q\<close> is
  replaced by what \<open>f\<close> makes of it (the message popped and the broker's state are
  as \<open>c\<close> gives them).
\<close>

definition with_pop_error ::
  "string \<Rightarrow> (error option \<Rightarrow> error option) \<Rightarrow> 'w collab \<Rightarrow> 'w collab" where
  "with_pop_error q f c =
    c\<lparr>LPop := (\<lambda>q' w. if q' = q then (case LPop c q' w of ((m, e), w') \<Rightarrow> ((m, f e), w'))
                       else LPop c q' w)\<rparr>"

section \<open>Sequences of operations\<close>

text \<open>
  What happens to a service over time: the calls of its operations and the ends of the
  runners it launched, in the order in which they take effect on the service.
  \<open>OpRunnerEnds r res\<close> is the goroutine of \<^verbatim>\<open>Run\<close> resuming when \<^verbatim>\<open>r.Run()\<close> returns
  \<open>res\<close>.
\<close>

datatype op =
    OpAssign Task
  | OpFetch
  | OpRun ObjectID
  | OpCancel string
  | OpFindLogs string string "64 word" "64 word"
  | OpClose
  | OpRunnerEnds TaskRunner "error option"

fun do_op :: "'w collab \<Rightarrow> op \<Rightarrow> 'w sys \<Rightarrow> 'w sys" where
  "do_op c (OpAssign t) st = snd (Assign c t st)"
| "do_op c OpFetch st = snd (Fetch c st)"
| "do_op c (OpRun taskId) st = snd (Run c taskId st)"
| "do_op c (OpCancel taskId) st = snd (Cancel c taskId st)"
| "do_op c (OpFindLogs taskId pat skip size') st = snd (FindLogs c taskId pat skip size' st)"
| "do_op c OpClose st = Close st"
| "do_op c (OpRunnerEnds r res) st = Run_goroutine r res st"

fun do_ops :: "'w collab \<Rightarrow> op list \<Rightarrow> 'w sys \<Rightarrow> 'w sys" where
  "do_ops c [] st = st"
| "do_ops c (x # xs) st = do_ops c xs (do_op c x st)"

section \<open>Concrete inputs\<close>

definition oid1 :: ObjectID where
  "oid1 = [0x5f, 0x1a, 0, 0xff, 4, 5, 6, 7, 8, 9, 10, 0xab]"

definition oid2 :: ObjectID where
  "oid2 = [0x60, 0, 0, 0, 0, 0, 0, 0, 0, 0, 0, 1]"

definition nil_oid :: ObjectID where
  "nil_oid = [0, 0, 0, 0, 0, 0, 0, 0, 0, 0, 0, 0]"

definition runner1 :: TaskRunner where
  "runner1 = \<lparr>tid = oid1\<rparr>"

definition oid3 :: ObjectID where
  "oid3 = [0x61, 0, 0, 0, 0, 0, 0, 0, 0, 0, 0, 2]"

definition node1 :: Node where
  "node1 = \<lparr>node_Id = oid2\<rparr>"

definition worker_opts :: TaskServiceOptions where
  "worker_opts = \<lparr>IsMaster = False, MaxRunners = 0, PollWaitSeconds = 0, Node = Some node1\<rparr>"

definition master_opts :: TaskServiceOptions where
  "master_opts = \<lparr>IsMaster = True, MaxRunners = 0, PollWaitSeconds = 0, Node = None\<rparr>"

text \<open>A task for the node \<open>oid2\<close> and a task for no node in particular, with their envelopes.\<close>

definition task1 :: Task where
  "task1 = \<lparr>task_Id = oid1, task_NodeId = oid2, task_Status = ''pending''\<rparr>"

definition task3 :: Task where
  "task3 = \<lparr>task_Id = oid3, task_NodeId = nil_oid, task_Status = ''pending''\<rparr>"

definition env1 :: string where
  "env1 = envelope_head @ ''5f1a00ff0405060708090aab'' @ envelope_tail"

definition env3 :: string where
  "env3 = envelope_head @ ''610000000000000000000002'' @ envelope_tail"

text \<open>The world after a master has assigned the first task only.\<close>

definition ext1 :: ext where
  "ext1 =
    \<lparr>queues = (\<lambda>q. [])(''tasks:node:600000000000000000000001'' := [env1]),
     faults = (\<lambda>q. None),
     tasks = [task1],
     store_fault = None\<rparr>"

text \<open>
  The world after a master has assigned both tasks: one message in the queue of the
  node, one in the shared queue, both records in the store.
\<close>

definition ext2 :: ext where
  "ext2 =
    \<lparr>queues = (\<lambda>q. [])(''tasks:node:600000000000000000000001'' := [env1],
                        ''tasks:public'' := [env3]),
     faults = (\<lambda>q. None),
     tasks = [task1, task3],
     store_fault = None\<rparr>"

text \<open>The same world while the broker refuses every operation on the queue of the node.\<close>

definition ext2_node_down :: ext where
  "ext2_node_down =
    ext2\<lparr>faults := (\<lambda>q. None)(''tasks:node:600000000000000000000001'' \<mapsto>
                                  ErrOther ''connection refused'')\<rparr>"

text \<open>
  A world whose shared queue holds a message with the zero identifier, and whose store
  answers the lookup of the zero identifier with a record.
\<close>

definition task0 :: Task where
  "task0 = \<lparr>task_Id = nil_oid, task_NodeId = nil_oid, task_Status = ''pending''\<rparr>"

definition env0 :: string where
  "env0 = envelope_head @ ''000000000000000000000000'' @ envelope_tail"

definition ext_zero :: ext where
  "ext_zero =
    \<lparr>queues = (\<lambda>q. [])(''tasks:public'' := [env0]),
     faults = (\<lambda>q. None),
     tasks = [task0],
     store_fault = None\<rparr>"

text \<open>
  A worker of the node \<open>oid2\<close> with room for one runner, polling, after it has admitted
  the task \<open>oid3\<close>; both queues still hold a message.
\<close>

definition sys_full :: "ext sys" where
  "sys_full =
    \<lparr>svc = \<lparr>runnersCount = 1,
             runners = [ObjectIDKey oid3 \<mapsto> TaskRunnerPtr \<lparr>tid = oid3\<rparr>],
             active = True,
             opts = \<lparr>IsMaster = False, MaxRunners = 1, PollWaitSeconds = 5, Node = Some node1\<rparr>\<rparr>,
     world = ext2,
     calls = [CallNewTaskRunner \<lparr>TaskId = oid3\<rparr>],
     launched = [\<lparr>tid = oid3\<rparr>],
     logged = []\<rparr>"

text \<open>A fresh default service whose loop has been started, in the world \<open>w\<close>.\<close>

definition polling :: "ext \<Rightarrow> ext sys" where
  "polling w = (sys0 None w)\<lparr>svc := (svc (sys0 None w))\<lparr>active := True\<rparr>\<rparr>"

text \<open>The state of a fresh default service after \<^verbatim>\<open>Run\<close> has admitted \<open>oid1\<close>.\<close>

definition sys1 :: "ext sys" where
  "sys1 =
    \<lparr>svc = \<lparr>runnersCount = 1,
             runners = [ObjectIDKey oid1 \<mapsto> TaskRunnerPtr runner1],
             active = False,
             opts = \<lparr>IsMaster = False, MaxRunners = 8, PollWaitSeconds = 5, Node = None\<rparr>\<rparr>,
     world = ext0,
     calls = [CallNewTaskRunner \<lparr>TaskId = oid1\<rparr>],
     launched = [runner1],
     logged = []\<rparr>"

section \<open>What the operations do to the service\<close>

lemma Run_present:
  "runners (svc st) (ObjectIDKey T) = Some v \<Longrightarrow> Run c T st = (Some ErrAlreadyExists, st)"
  by (simp add: Run_def)

lemma Run_success_registers:
  assumes "Run c T st = (None, st1)"
  shows "\<exists>r. runners (svc st1) = (runners (svc st))(ObjectIDKey T \<mapsto> TaskRunnerPtr r)
           \<and> runnersCount (svc st1) = runnersCount (svc st) + 1
           \<and> launched st1 = launched st @ [r]
           \<and> calls st1 = calls st @ [CallNewTaskRunner \<lparr>TaskId = T\<rparr>]
           \<and> runners (svc st) (ObjectIDKey T) = None"
  using assms
  by (auto simp: Run_def new_TaskRunner_def split: option.splits prod.splits sum.splits)

lemma Run_failure_keeps_svc:
  assumes "Run c T st = (Some e, st1)"
  shows "svc st1 = svc st \<and> launched st1 = launched st"
  using assms
  by (auto simp: Run_def new_TaskRunner_def split: option.splits prod.splits sum.splits)

lemma svc_saveTask [simp]: "svc (snd (saveTask c t status st)) = svc st"
  by (auto simp: saveTask_def model_GetById_def model_Add_def model_Save_def Let_def
      split: prod.splits sum.splits)

lemma svc_Assign [simp]: "svc (snd (Assign c t st)) = svc st"
  by (auto simp: Assign_def redis_RPush_def split: prod.splits sum.splits option.splits)

lemma svc_Fetch_load [simp]: "svc (snd (Fetch_load c m st)) = svc st"
  by (auto simp: Fetch_load_def model_GetById_def split: prod.splits sum.splits)

lemma svc_Fetch [simp]: "svc (snd (Fetch c st)) = svc st"
  by (auto simp: Fetch_def redis_LPop_def Let_def split: prod.splits sum.splits option.splits)

lemma svc_Cancel [simp]: "svc (snd (Cancel c k st)) = svc st"
  by (auto simp: Cancel_def runner_Cancel_def split: prod.splits sum.splits)

lemma svc_FindLogs [simp]: "svc (snd (FindLogs c k pat skip n st)) = svc st"
  by (auto simp: FindLogs_def runner_LogFind_def split: prod.splits sum.splits)

lemma svc_Run_goroutine [simp]: "svc (Run_goroutine r res st) = svc st"
  by (auto simp: Run_goroutine_def log_Error_def split: option.splits)

lemma runners_Close [simp]: "runners (svc (Close st)) = runners (svc st)"
  by (simp add: Close_def)

lemma runnersCount_Close [simp]: "runnersCount (svc (Close st)) = runnersCount (svc st)"
  by (simp add: Close_def)

lemma runners_Run_mono:
  "runners (svc st) k = Some v \<Longrightarrow> runners (svc (snd (Run c T st))) k = Some v"
  by (auto simp: Run_def new_TaskRunner_def split: option.splits prod.splits sum.splits)

lemma do_op_keeps_entry:
  "runners (svc st) k = Some v \<Longrightarrow> runners (svc (do_op c x st)) k = Some v"
  by (cases x) (simp_all add: runners_Run_mono)

lemma do_ops_keeps_entry:
  "runners (svc st) k = Some v \<Longrightarrow> runners (svc (do_ops c xs st)) k = Some v"
  by (induction xs arbitrary: st) (simp_all add: do_op_keeps_entry)

lemma Run_fresh: "Run spec_collab oid1 (sys0 None ext0) = (None, sys1)"
  by (simp add: Run_def new_TaskRunner_def spec_collab_def sys0_def sys1_def
      NewTaskService_def runner1_def)

lemma launched_saveTask [simp]: "launched (snd (saveTask c t status st)) = launched st"
  by (auto simp: saveTask_def model_GetById_def model_Add_def model_Save_def Let_def
      split: prod.splits sum.splits)

lemma launched_Assign [simp]: "launched (snd (Assign c t st)) = launched st"
  by (auto simp: Assign_def redis_RPush_def split: prod.splits sum.splits option.splits)

lemma launched_Fetch_load [simp]: "launched (snd (Fetch_load c m st)) = launched st"
  by (auto simp: Fetch_load_def model_GetById_def split: prod.splits sum.splits)

lemma launched_Fetch [simp]: "launched (snd (Fetch c st)) = launched st"
  by (auto simp: Fetch_def redis_LPop_def Let_def split: prod.splits sum.splits option.splits)

lemma launched_Cancel [simp]: "launched (snd (Cancel c k st)) = launched st"
  by (auto simp: Cancel_def runner_Cancel_def split: prod.splits sum.splits)

lemma launched_FindLogs [simp]: "launched (snd (FindLogs c k pat skip n st)) = launched st"
  by (auto simp: FindLogs_def runner_LogFind_def split: prod.splits sum.splits)

lemma launched_Run_goroutine [simp]: "launched (Run_goroutine r res st) = launched st"
  by (auto simp: Run_goroutine_def log_Error_def split: option.splits)

lemma launched_Close [simp]: "launched (Close st) = launched st"
  by (simp add: Close_def)

text \<open>The counter moves with the list of launched runners, and only with it.\<close>

lemma do_op_counter:
  "\<exists>n. launched (do_op c x st) = launched st @ n \<and>
       runnersCount (svc (do_op c x st)) = runnersCount (svc st) + of_nat (length n)"
proof (cases x)
  case (OpRun T)
  obtain res st1 where r: "Run c T st = (res, st1)"
    by (cases "Run c T st")
  show ?thesis
  proof (cases res)
    case None
    with r OpRun show ?thesis
      by (auto dest!: Run_success_registers)
  next
    case (Some e)
    with r OpRun show ?thesis
      by (auto dest!: Run_failure_keeps_svc)
  qed
qed simp_all

lemma do_ops_counter:
  "\<exists>n. launched (do_ops c xs st) = launched st @ n \<and>
       runnersCount (svc (do_ops c xs st)) = runnersCount (svc st) + of_nat (length n)"
proof (induction xs arbitrary: st)
  case Nil
  show ?case by simp
next
  case (Cons x xs)
  obtain n1 where n1: "launched (do_op c x st) = launched st @ n1"
    "runnersCount (svc (do_op c x st)) = runnersCount (svc st) + of_nat (length n1)"
    using do_op_counter [of c x st] by blast
  obtain n2 where n2: "launched (do_ops c xs (do_op c x st)) = launched (do_op c x st) @ n2"
    "runnersCount (svc (do_ops c xs (do_op c x st))) =
       runnersCount (svc (do_op c x st)) + of_nat (length n2)"
    using Cons.IH [of "do_op c x st"] by blast
  show ?case
    using n1 n2 by (intro exI [of _ "n1 @ n2"]) simp
qed

text \<open>The pool of a service holds no key of Go type \<^verbatim>\<open>string\<close>: \<^verbatim>\<open>Run\<close> alone stores, under an \<^verbatim>\<open>ObjectID\<close>.\<close>

lemma getTaskRunner_string_keys:
  "(\<And>s. runners (svc st) (StringKey s) = None) \<Longrightarrow> getTaskRunner k st = Inl ErrNotExists"
  by (simp add: getTaskRunner_def)

lemma do_op_string_keys:
  assumes "\<And>s. runners (svc st) (StringKey s) = None"
  shows "runners (svc (do_op c x st)) (StringKey s) = None"
  using assms
  by (cases x) (auto simp: Run_def new_TaskRunner_def split: option.splits prod.splits sum.splits)

lemma do_ops_string_keys:
  assumes "\<And>s. runners (svc st) (StringKey s) = None"
  shows "runners (svc (do_ops c xs st)) (StringKey s) = None"
  using assms
proof (induction xs arbitrary: st s)
  case Nil
  then show ?case by simp
next
  case (Cons x xs)
  then show ?case by (simp add: do_op_string_keys)
qed

lemma Cancel_never_reaches_runner:
  "Cancel c k (do_ops c xs (sys0 options w)) = (Some ErrNotExists, do_ops c xs (sys0 options w))"
proof -
  have "runners (svc (do_ops c xs (sys0 options w))) (StringKey k) = None"
    by (rule do_ops_string_keys) (simp add: sys0_def NewTaskService_def Let_def)
  then show ?thesis
    by (simp add: Cancel_def getTaskRunner_def)
qed

section \<open>What \<^verbatim>\<open>Fetch\<close> does, pop by pop\<close>

lemma node_queue_not_public [simp]:
  "''tasks:node:'' @ x \<noteq> ''tasks:public''" "''tasks:public'' \<noteq> ''tasks:node:'' @ x"
  by simp_all

lemma Fetch_load_calls:
  "\<exists>rest. calls (snd (Fetch_load c m st)) = calls st @ rest \<and> (\<forall>q. CallLPop q \<notin> set rest)"
  by (auto simp: Fetch_load_def model_GetById_def split: sum.splits prod.splits)

lemma Fetch_with_node:
  assumes "Node (opts (svc st)) = Some n"
    and "LPop c (''tasks:node:'' @ Hex (node_Id n)) (world st) = ((msg, err), w1)"
  shows "Fetch c st =
    (let st1 = st\<lparr>world := w1, calls := calls st @ [CallLPop (''tasks:node:'' @ Hex (node_Id n))]\<rparr> in
     if msg = [] then
       (case LPop c ''tasks:public'' w1 of
          ((msg2, e2), w2) \<Rightarrow>
            (let st2 = st\<lparr>world := w2,
                         calls := calls st @ [CallLPop (''tasks:node:'' @ Hex (node_Id n)),
                                             CallLPop ''tasks:public'']\<rparr> in
             case e2 of
               Some err2 \<Rightarrow> (Inl err2, st2)
             | None \<Rightarrow> if msg2 = [] then (Inl ErrNoTasksAvailable, st2) else Fetch_load c msg2 st2))
     else Fetch_load c msg st1)"
  using assms
  by (simp add: Fetch_def redis_LPop_def Let_def split: prod.splits option.splits)

lemma Fetch_without_node:
  assumes "Node (opts (svc st)) = None"
  shows "Fetch c st =
    (case LPop c ''tasks:public'' (world st) of
       ((msg2, e2), w2) \<Rightarrow>
         (let st2 = st\<lparr>world := w2, calls := calls st @ [CallLPop ''tasks:public'']\<rparr> in
          case e2 of
            Some err2 \<Rightarrow> (Inl err2, st2)
          | None \<Rightarrow> if msg2 = [] then (Inl ErrNoTasksAvailable, st2) else Fetch_load c msg2 st2))"
  using assms
  by (simp add: Fetch_def redis_LPop_def Let_def split: prod.splits option.splits)

lemma Fetch_load_with_pop_error [simp]:
  "Fetch_load (with_pop_error q f c) m st = Fetch_load c m st"
  by (simp add: Fetch_load_def model_GetById_def with_pop_error_def split: sum.splits)

lemma Hex_oid2: "Hex oid2 = ''600000000000000000000001''"
  by (simp add: oid2_def hextable_def)

lemma Unmarshal_env1: "codec_Unmarshal env1 = Inr \<lparr>msg_Id = oid1\<rparr>"
  by (simp add: codec_Unmarshal_def env1_def envelope_head_def envelope_tail_def hexval_def
      oid1_def)

lemma Unmarshal_env3: "codec_Unmarshal env3 = Inr \<lparr>msg_Id = oid3\<rparr>"
  by (simp add: codec_Unmarshal_def env3_def envelope_head_def envelope_tail_def hexval_def
      oid3_def)

lemma oids_distinct: "oid1 \<noteq> oid3" "oid3 \<noteq> oid1" "oid1 \<noteq> oid2"
  by (simp_all add: oid1_def oid2_def oid3_def)

lemma env1_not_empty: "env1 \<noteq> []"
  by (simp add: env1_def envelope_head_def)

lemma env3_not_empty: "env3 \<noteq> []"
  by (simp add: env3_def envelope_head_def)

text \<open>
  With the broker of the spec: when the queue of the node holds a message at its head
  that is not empty, \<^verbatim>\<open>Fetch\<close> takes this message off the queue of the node and leaves
  every other queue, the shared one among them, as it is.
\<close>

lemma world_Fetch_load_spec [simp]:
  "world (snd (Fetch_load spec_collab m st)) = world st"
  by (simp add: Fetch_load_def model_GetById_def spec_collab_def store_GetById_def
      split: sum.splits option.splits)

lemma Fetch_spec_node_head:
  assumes "Node (opts (svc st)) = Some n"
    and "faults (world st) (''tasks:node:'' @ Hex (node_Id n)) = None"
    and "queues (world st) (''tasks:node:'' @ Hex (node_Id n)) = m # ms"
    and "m \<noteq> []"
  shows "queues (world (snd (Fetch spec_collab st))) =
           (queues (world st))(''tasks:node:'' @ Hex (node_Id n) := ms)"
proof -
  let ?q = "''tasks:node:'' @ Hex (node_Id n)"
  have pop: "LPop spec_collab ?q (world st) =
      ((m, None), (world st)\<lparr>queues := (queues (world st))(?q := ms)\<rparr>)"
    using assms(2,3) by (simp add: spec_collab_def broker_LPop_def)
  show ?thesis
    unfolding Fetch_with_node [OF assms(1) pop]
    using assms(4) by (simp add: Let_def)
qed

section \<open>What \<^verbatim>\<open>saveTask\<close> and \<^verbatim>\<open>Assign\<close> do, call by call\<close>

lemma saveTask_unfold:
  assumes "GetById c (task_Id t) (world st) = (r, w1)"
  shows "saveTask c t status st =
    (let t1 = t\<lparr>task_Status := (if status = [] then StatusPending else status)\<rparr> in
     case r of
       Inl err \<Rightarrow>
         if err = ErrNoDocuments then
           (case Add c t1 w1 of
              (e, w2) \<Rightarrow>
                (e, st\<lparr>world := w2, calls := calls st @ [CallGetById (task_Id t), CallAdd t1]\<rparr>))
         else (Some err, st\<lparr>world := w1, calls := calls st @ [CallGetById (task_Id t)]\<rparr>)
     | Inr found \<Rightarrow>
         (case Save c t1 w1 of
            (e, w2) \<Rightarrow>
              (e, st\<lparr>world := w2, calls := calls st @ [CallGetById (task_Id t), CallSave t1]\<rparr>)))"
  using assms
  by (simp add: saveTask_def model_GetById_def model_Add_def model_Save_def Let_def
      split: sum.splits prod.splits)

lemma saveTask_calls:
  "\<exists>rest. calls (snd (saveTask c t status st)) = calls st @ CallGetById (task_Id t) # rest \<and>
     (rest = [] \<or>
      rest = [CallAdd (t\<lparr>task_Status := (if status = [] then StatusPending else status)\<rparr>)] \<or>
      rest = [CallSave (t\<lparr>task_Status := (if status = [] then StatusPending else status)\<rparr>)])"
proof -
  obtain r w1 where g: "GetById c (task_Id t) (world st) = (r, w1)"
    by (metis surj_pair)
  show ?thesis
    unfolding saveTask_unfold [OF g]
    by (auto simp: Let_def split: sum.splits prod.splits)
qed

lemma queue_of_eq:
  "queue_of t =
    (if IsZero (task_NodeId t) then ''tasks:public'' else ''tasks:node:'' @ Hex (task_NodeId t))"
  by (simp add: queue_of_def IsObjectIdNull_def)

lemma Hex_oid1: "Hex oid1 = ''5f1a00ff0405060708090aab''"
  by (simp add: oid1_def hextable_def)

lemma Hex_oid3: "Hex oid3 = ''610000000000000000000002''"
  by (simp add: oid3_def hextable_def)

lemma IsZero_oids: "\<not> IsZero oid2" "IsZero nil_oid"
  by (simp_all add: IsZero_def oid2_def nil_oid_def)

text \<open>
  A master that assigns the second task after the first leaves the world \<open>ext2\<close>, from
  which the worker of the node fetches.
\<close>

lemma Assign_second_task:
  "Assign spec_collab task3 ((sys0 (Some master_opts) ext0)\<lparr>world := ext1\<rparr>) =
     (None, (sys0 (Some master_opts) ext0)
              \<lparr>world := ext2,
               calls := [CallRPush ''tasks:public'' env3, CallGetById oid3, CallAdd task3]\<rparr>)"
  by (simp add: Assign_def redis_RPush_def saveTask_def model_GetById_def model_Add_def
      spec_collab_def codec_ToString_def broker_RPush_def store_GetById_def store_Add_def
      queue_of_def IsObjectIdNull_def IsZero_oids Hex_oid3
      sys0_def NewTaskService_def master_opts_def ext1_def ext2_def task1_def task3_def env3_def
      StatusPending_def Let_def oids_distinct)

section \<open>The iterations of the loop of \<^verbatim>\<open>Init\<close>\<close>

lemma Init_iter_saturated:
  assumes "MaxRunners (opts (svc (sleep st))) \<le>s runnersCount (svc (sleep st))"
  shows "Init_iter c sleep st =
     (if \<not> active (svc st) then (Return ErrStopped, st)
      else if \<not> active (svc (sleep st)) then (Return ErrStopped, sleep st)
      else (Continue, sleep st))"
  using assms by (simp add: Init_iter_def Let_def)

lemma Init_loop_saturated:
  assumes "\<forall>sl \<in> set sleeps. \<forall>s. MaxRunners (opts (svc s)) \<le>s runnersCount (svc s) \<longrightarrow>
             MaxRunners (opts (svc (sl s))) \<le>s runnersCount (svc (sl s))"
    and "MaxRunners (opts (svc st)) \<le>s runnersCount (svc st)"
  shows "Init_loop c sleeps st = Init_loop c' sleeps st"
  using assms
proof (induction sleeps arbitrary: st)
  case Nil
  show ?case by simp
next
  case (Cons sl sleeps)
  from Cons.prems have sat: "MaxRunners (opts (svc (sl st))) \<le>s runnersCount (svc (sl st))"
    by simp
  from Cons.prems have rest: "\<forall>sl \<in> set sleeps. \<forall>s. MaxRunners (opts (svc s)) \<le>s runnersCount (svc s) \<longrightarrow>
             MaxRunners (opts (svc (sl s))) \<le>s runnersCount (svc (sl s))"
    by simp
  have "Init_loop c sleeps (sl st) = Init_loop c' sleeps (sl st)"
    using Cons.IH [OF rest sat] .
  then show ?case
    by (simp add: Init_iter_saturated [of sl st, OF sat])
qed

lemma sys_full_saturated: "MaxRunners (opts (svc sys_full)) \<le>s runnersCount (svc sys_full)"
  by (simp add: sys_full_def)

lemma Init_iter_fetching:
  assumes "active (svc st)" and "active (svc (sleep st))"
    and "\<not> MaxRunners (opts (svc (sleep st))) \<le>s runnersCount (svc (sleep st))"
  shows "Init_iter c sleep st =
    (case Fetch c (sleep st) of
       (Inl err, st2) \<Rightarrow>
         (Continue,
          if err \<noteq> ErrNoTasksAvailable then log_Error (LogFetchTaskError err) st2 else st2)
     | (Inr t, st2) \<Rightarrow>
         if IsZero (task_Id t) then (Return ErrEmptyValue, st2)
         else (case Run c (task_Id t) st2 of
                 (Some err, st3) \<Rightarrow> (Continue, log_Error (LogRunTaskError err) st3)
               | (None, st3) \<Rightarrow> (Continue, st3)))"
  using assms by (simp add: Init_iter_def Let_def)

lemma Init_iter_Return:
  assumes "Init_iter c sleep st = (Return e, st')"
  shows "(e = ErrStopped \<and> \<not> active (svc st')) \<or>
         (e = ErrEmptyValue \<and> (\<exists>t. Fetch c (sleep st) = (Inr t, st') \<and> IsZero (task_Id t)))"
  using assms
  by (auto simp: Init_iter_def Let_def split: if_splits prod.splits sum.splits option.splits)

lemma Init_loop_Return:
  assumes "Init_loop c sleeps st = Some (e, st')"
  shows "(e = ErrStopped \<and> \<not> active (svc st')) \<or>
         (e = ErrEmptyValue \<and> (\<exists>s t. Fetch c s = (Inr t, st') \<and> IsZero (task_Id t)))"
  using assms
proof (induction sleeps arbitrary: st)
  case Nil
  then show ?case by simp
next
  case (Cons sl sleeps)
  obtain out st1 where it: "Init_iter c sl st = (out, st1)"
    by (cases "Init_iter c sl st")
  show ?case
  proof (cases out)
    case (Return err)
    with it Cons.prems have "err = e" "st1 = st'"
      by simp_all
    with it Return Init_iter_Return [of c sl st e st'] show ?thesis
      by blast
  next
    case Continue
    with it Cons.prems have "Init_loop c sleeps st1 = Some (e, st')"
      by simp
    then show ?thesis
      by (rule Cons.IH)
  qed
qed

lemma Unmarshal_env0: "codec_Unmarshal env0 = Inr \<lparr>msg_Id = nil_oid\<rparr>"
  by (simp add: codec_Unmarshal_def env0_def envelope_head_def envelope_tail_def hexval_def
      nil_oid_def)

lemma polling_ready:
  "active (svc (polling w))" "Node (opts (svc (polling w))) = None"
  "\<not> MaxRunners (opts (svc (polling w))) \<le>s runnersCount (svc (polling w))"
  by (simp_all add: polling_def sys0_def NewTaskService_def word_sle_eq)

lemma Fetch_zero_id:
  "Fetch spec_collab (polling ext_zero) =
    (Inr task0, (polling ext_zero)\<lparr>world := ext_zero\<lparr>queues := (\<lambda>q. [])\<rparr>,
                                  calls := [CallLPop ''tasks:public'', CallGetById nil_oid]\<rparr>)"
proof -
  have pop: "LPop spec_collab ''tasks:public'' (world (polling ext_zero)) =
      ((env0, None), ext_zero\<lparr>queues := (\<lambda>q. [])\<rparr>)"
    by (simp add: spec_collab_def broker_LPop_def polling_def sys0_def ext_zero_def fun_eq_iff)
  have "env0 \<noteq> []"
    by (simp add: env0_def envelope_head_def)
  then show ?thesis
    unfolding Fetch_without_node [OF polling_ready(2)] pop
    by (simp add: Fetch_load_def Unmarshal_env0 model_GetById_def spec_collab_def
        store_GetById_def polling_def sys0_def ext_zero_def task0_def)
qed

lemma Fetch_idle:
  "Fetch spec_collab (polling ext0) =
    (Inl ErrNoTasksAvailable, (polling ext0)\<lparr>calls := [CallLPop ''tasks:public'']\<rparr>)"
proof -
  have pop: "LPop spec_collab ''tasks:public'' (world (polling ext0)) = (([], None), ext0)"
    by (simp add: spec_collab_def broker_LPop_def polling_def sys0_def ext0_def)
  show ?thesis
    unfolding Fetch_without_node [OF polling_ready(2)] pop
    by (simp add: polling_def sys0_def)
qed

lemma active_Run [simp]: "active (svc (snd (Run c T st))) = active (svc st)"
  by (auto simp: Run_def new_TaskRunner_def split: option.splits prod.splits sum.splits)

lemma Run_spec_admits:
  "runners (svc st) (ObjectIDKey T) = None \<Longrightarrow> fst (Run spec_collab T st) = None"
  by (simp add: Run_def new_TaskRunner_def spec_collab_def)

lemma Fetch_real_task:
  "Fetch spec_collab (polling ext2) =
    (Inr task3, (polling ext2)\<lparr>world := ext2\<lparr>queues := (queues ext2)(''tasks:public'' := [])\<rparr>,
                              calls := [CallLPop ''tasks:public'', CallGetById oid3]\<rparr>)"
proof -
  have pop: "LPop spec_collab ''tasks:public'' (world (polling ext2)) =
      ((env3, None), ext2\<lparr>queues := (queues ext2)(''tasks:public'' := [])\<rparr>)"
    by (simp add: spec_collab_def broker_LPop_def polling_def sys0_def ext2_def)
  show ?thesis
    unfolding Fetch_without_node [OF polling_ready(2)] pop
    using env3_not_empty
    by (simp add: Fetch_load_def Unmarshal_env3 model_GetById_def spec_collab_def
        store_GetById_def polling_def sys0_def ext2_def task1_def task3_def oids_distinct)
qed

section \<open>At most one run per task identifier\<close>

text \<open>
  C1. When the pool holds an entry for the task identifier \<open>T\<close>, \<^verbatim>\<open>Run(T)\<close> fails with
  \<^verbatim>\<open>ErrAlreadyExists\<close> and leaves the whole state as it was: no runner is created, no
  entry added, the counter is not changed. After a \<^verbatim>\<open>Run(T)\<close> that succeeded the entry
  is in the pool and stays there whatever the service does next, so every later
  \<^verbatim>\<open>Run(T)\<close> fails in this way.
\<close>

theorem Run_rejects_live_entry:
  "(runners (svc st) (ObjectIDKey T) \<noteq> None \<longrightarrow> Run c T st = (Some ErrAlreadyExists, st)) \<and>
   (Run c T st0 = (None, st1) \<longrightarrow>
      Run c T (do_ops c xs st1) = (Some ErrAlreadyExists, do_ops c xs st1))"
proof (intro conjI impI)
  assume "runners (svc st) (ObjectIDKey T) \<noteq> None"
  then show "Run c T st = (Some ErrAlreadyExists, st)"
    by (auto simp: Run_present)
next
  assume "Run c T st0 = (None, st1)"
  then obtain r where "runners (svc st1) (ObjectIDKey T) = Some (TaskRunnerPtr r)"
    by (auto dest!: Run_success_registers)
  then have "runners (svc (do_ops c xs st1)) (ObjectIDKey T) = Some (TaskRunnerPtr r)"
    by (rule do_ops_keeps_entry)
  then show "Run c T (do_ops c xs st1) = (Some ErrAlreadyExists, do_ops c xs st1)"
    by (rule Run_present)
qed

theorem Run_rejects_live_entry_witness:
  "runners (svc sys1) (ObjectIDKey oid1) \<noteq> None \<and>
   Run spec_collab oid1 (sys0 None ext0) = (None, sys1) \<and>
   Run spec_collab oid1 sys1 = (Some ErrAlreadyExists, sys1) \<and>
   Run spec_collab oid1 (do_ops spec_collab [OpFetch, OpCancel (Hex oid1)] sys1) =
     (Some ErrAlreadyExists, do_ops spec_collab [OpFetch, OpCancel (Hex oid1)] sys1)"
proof -
  have h1: "runners (svc sys1) (ObjectIDKey oid1) \<noteq> None"
    by (simp add: sys1_def)
  have h2: "Run spec_collab oid1 (sys0 None ext0) = (None, sys1)"
    by (rule Run_fresh)
  show ?thesis
    using h1 h2
      Run_rejects_live_entry [of sys1 oid1 spec_collab "sys0 None ext0" sys1
        "[OpFetch, OpCancel (Hex oid1)]"]
    by simp
qed

section \<open>The occupancy counter and the end of a runner\<close>

text \<open>
  C4, as the spec states it, fails on the code. A fresh default service admits
  \<open>oid1\<close>: the counter is 1 and the pool holds the runner. The runner then ends (with
  success, with a task error, or cancelled): the goroutine logs the outcome and nothing
  else, the counter is still 1 and the entry is still in the pool.
\<close>

theorem runner_end_keeps_counter_and_entry:
  "Run spec_collab oid1 (sys0 None ext0) = (None, sys1) \<and>
   runnersCount (svc sys1) = 1 \<and>
   runnersCount (svc (Run_goroutine runner1 None sys1)) = 1 \<and>
   runners (svc (Run_goroutine runner1 None sys1)) (ObjectIDKey oid1) = Some (TaskRunnerPtr runner1) \<and>
   runnersCount (svc (Run_goroutine runner1 (Some ErrTaskError) sys1)) = 1 \<and>
   runnersCount (svc (Run_goroutine runner1 (Some ErrTaskCancelled) sys1)) = 1"
  by (simp add: Run_fresh Run_goroutine_def log_Error_def sys1_def)

text \<open>
  C4, amended. A \<^verbatim>\<open>Run\<close> that succeeds adds one to the counter, adds the entry of the
  new runner to the pool and launches that runner; a \<^verbatim>\<open>Run\<close> that fails leaves counter
  and pool as they were. When a runner ends the goroutine leaves the service as it
  is: the counter keeps its value and the entry stays. Over every sequence of
  operations the counter therefore grows by the number of runners launched
  (modulo \<open>2^64\<close>, as a Go \<^verbatim>\<open>int\<close> does), whether they have ended or not.
\<close>

theorem counter_counts_registrations:
  "(Run c T st = (None, st1) \<longrightarrow>
      runnersCount (svc st1) = runnersCount (svc st) + 1 \<and>
      (\<exists>r. runners (svc st1) = (runners (svc st))(ObjectIDKey T \<mapsto> TaskRunnerPtr r) \<and>
           launched st1 = launched st @ [r])) \<and>
   (Run c T st = (Some e, st2) \<longrightarrow> svc st2 = svc st \<and> launched st2 = launched st) \<and>
   svc (Run_goroutine r res st) = svc st \<and>
   (\<exists>n. launched (do_ops c xs st) = launched st @ n \<and>
        runnersCount (svc (do_ops c xs st)) = runnersCount (svc st) + of_nat (length n))"
proof (intro conjI impI)
  assume a: "Run c T st = (None, st1)"
  from Run_success_registers [OF a]
  show "runnersCount (svc st1) = runnersCount (svc st) + 1" by blast
  from Run_success_registers [OF a]
  show "\<exists>r. runners (svc st1) = (runners (svc st))(ObjectIDKey T \<mapsto> TaskRunnerPtr r) \<and>
           launched st1 = launched st @ [r]" by blast
next
  assume b: "Run c T st = (Some e, st2)"
  from Run_failure_keeps_svc [OF b] show "svc st2 = svc st" by blast
  from Run_failure_keeps_svc [OF b] show "launched st2 = launched st" by blast
next
  show "svc (Run_goroutine r res st) = svc st" by simp
next
  show "\<exists>n. launched (do_ops c xs st) = launched st @ n \<and>
        runnersCount (svc (do_ops c xs st)) = runnersCount (svc st) + of_nat (length n)"
    by (rule do_ops_counter)
qed

theorem counter_counts_registrations_witness:
  "Run spec_collab oid1 (sys0 None ext0) = (None, sys1) \<and>
   Run spec_collab oid1 sys1 = (Some ErrAlreadyExists, sys1) \<and>
   runnersCount (svc sys1) = runnersCount (svc (sys0 None ext0)) + 1 \<and>
   svc (Run_goroutine runner1 (Some ErrTaskCancelled) sys1) = svc sys1"
proof -
  have h1: "Run spec_collab oid1 (sys0 None ext0) = (None, sys1)"
    by (rule Run_fresh)
  have h2: "Run spec_collab oid1 sys1 = (Some ErrAlreadyExists, sys1)"
    by (simp add: Run_def sys1_def)
  show ?thesis
    using h1 h2
      counter_counts_registrations [of spec_collab oid1 "sys0 None ext0" sys1 ErrAlreadyExists
        "sys0 None ext0" runner1 "Some ErrTaskCancelled" "[]"]
      counter_counts_registrations [of spec_collab oid1 sys1 sys1 ErrAlreadyExists
        sys1 runner1 "Some ErrTaskCancelled" "[]"]
    by simp
qed

section \<open>\<^verbatim>\<open>Cancel\<close> and the key of the pool\<close>

text \<open>
  C5 is what the spec asks for and not what the code does. \<^verbatim>\<open>Run\<close> stores
  the runner under a key of Go type \<^verbatim>\<open>primitive.ObjectID\<close>; \<^verbatim>\<open>getTaskRunner\<close> loads
  with a key of Go type \<^verbatim>\<open>string\<close>, which is equal to no \<^verbatim>\<open>ObjectID\<close> key. After a
  fresh default service has admitted \<open>oid1\<close>, \<^verbatim>\<open>Cancel\<close> of the identifier's hexadecimal
  form fails with \<^verbatim>\<open>ErrNotExists\<close> and the runner's \<^verbatim>\<open>Cancel\<close> is not called
  (\<open>Cancel_never_reaches_runner\<close>: so it is for every string, after every sequence of
  operations of a new service).
\<close>

theorem Cancel_misses_registered_runner:
  "Run spec_collab oid1 (sys0 None ext0) = (None, sys1) \<and>
   runners (svc sys1) (ObjectIDKey oid1) = Some (TaskRunnerPtr runner1) \<and>
   Hex oid1 = ''5f1a00ff0405060708090aab'' \<and>
   Cancel spec_collab ''5f1a00ff0405060708090aab'' sys1 = (Some ErrNotExists, sys1)"
proof -
  have "Hex oid1 = ''5f1a00ff0405060708090aab''"
    by (simp add: oid1_def hextable_def)
  moreover have "runners (svc sys1) (ObjectIDKey oid1) = Some (TaskRunnerPtr runner1)"
    by (simp add: sys1_def)
  moreover have "Cancel spec_collab ''5f1a00ff0405060708090aab'' sys1 = (Some ErrNotExists, sys1)"
    by (simp add: Cancel_def getTaskRunner_def sys1_def)
  ultimately show ?thesis
    using Run_fresh by simp
qed

section \<open>The order of the queues in \<^verbatim>\<open>Fetch\<close>\<close>

text \<open>
  C2. A service with a node identity pops the queue of its node first. When that pop
  yields a message that is not empty, \<^verbatim>\<open>Fetch\<close> decodes and loads this message in the
  state the one pop left: the shared queue is not popped in the call. When it yields
  the empty message, the shared queue is popped next.
\<close>

theorem Fetch_node_queue_first:
  assumes "Node (opts (svc st)) = Some n"
    and "LPop c (''tasks:node:'' @ Hex (node_Id n)) (world st) = ((msg, err), w1)"
  shows "(msg \<noteq> [] \<longrightarrow>
            Fetch c st =
              Fetch_load c msg
                (st\<lparr>world := w1, calls := calls st @ [CallLPop (''tasks:node:'' @ Hex (node_Id n))]\<rparr>) \<and>
            (\<exists>rest. calls (snd (Fetch c st)) =
                      calls st @ CallLPop (''tasks:node:'' @ Hex (node_Id n)) # rest \<and>
                    CallLPop ''tasks:public'' \<notin> set rest)) \<and>
         (msg = [] \<longrightarrow>
            (\<exists>rest. calls (snd (Fetch c st)) =
                      calls st @ CallLPop (''tasks:node:'' @ Hex (node_Id n)) #
                        CallLPop ''tasks:public'' # rest))"
proof (intro conjI impI)
  let ?q = "''tasks:node:'' @ Hex (node_Id n)"
  let ?st1 = "st\<lparr>world := w1, calls := calls st @ [CallLPop ?q]\<rparr>"
  assume m: "msg \<noteq> []"
  with Fetch_with_node [OF assms] show eq: "Fetch c st = Fetch_load c msg ?st1"
    by (simp add: Let_def)
  obtain rest where "calls (snd (Fetch_load c msg ?st1)) = calls ?st1 @ rest"
    and "\<forall>q. CallLPop q \<notin> set rest"
    using Fetch_load_calls [of c msg ?st1] by blast
  then show "\<exists>rest. calls (snd (Fetch c st)) = calls st @ CallLPop ?q # rest \<and>
                    CallLPop ''tasks:public'' \<notin> set rest"
    using eq by auto
next
  let ?q = "''tasks:node:'' @ Hex (node_Id n)"
  assume m: "msg = []"
  obtain msg2 e2 w2 where p: "LPop c ''tasks:public'' w1 = ((msg2, e2), w2)"
    by (metis surj_pair)
  let ?st2 = "st\<lparr>world := w2, calls := calls st @ [CallLPop ?q, CallLPop ''tasks:public'']\<rparr>"
  obtain rest where r: "calls (snd (Fetch_load c msg2 ?st2)) = calls ?st2 @ rest"
    using Fetch_load_calls [of c msg2 ?st2] by blast
  show "\<exists>rest. calls (snd (Fetch c st)) = calls st @ CallLPop ?q # CallLPop ''tasks:public'' # rest"
    using Fetch_with_node [OF assms] m p r
    by (auto simp: Let_def split: option.splits)
qed

theorem Fetch_node_queue_first_witness:
  "Node (opts (svc (sys0 (Some worker_opts) ext2))) = Some node1 \<and>
   LPop spec_collab (''tasks:node:'' @ Hex (node_Id node1)) (world (sys0 (Some worker_opts) ext2)) =
     ((env1, None), ext2\<lparr>queues := (queues ext2)(''tasks:node:600000000000000000000001'' := [])\<rparr>) \<and>
   env1 \<noteq> [] \<and>
   fst (Fetch spec_collab (sys0 (Some worker_opts) ext2)) = Inr task1 \<and>
   queues (world (snd (Fetch spec_collab (sys0 (Some worker_opts) ext2)))) ''tasks:public'' = [env3] \<and>
   calls (snd (Fetch spec_collab (sys0 (Some worker_opts) ext2))) =
     [CallLPop ''tasks:node:600000000000000000000001'', CallGetById oid1]"
proof -
  let ?st = "sys0 (Some worker_opts) ext2"
  let ?w1 = "ext2\<lparr>queues := (queues ext2)(''tasks:node:600000000000000000000001'' := [])\<rparr>"
  have h1: "Node (opts (svc ?st)) = Some node1"
    by (simp add: sys0_def NewTaskService_def worker_opts_def)
  have h2: "LPop spec_collab (''tasks:node:'' @ Hex (node_Id node1)) (world ?st) = ((env1, None), ?w1)"
    by (simp add: node1_def Hex_oid2 spec_collab_def broker_LPop_def sys0_def ext2_def)
  have load: "Fetch_load spec_collab env1
      (?st\<lparr>world := ?w1, calls := calls ?st @ [CallLPop (''tasks:node:'' @ Hex (node_Id node1))]\<rparr>) =
    (Inr task1, ?st\<lparr>world := ?w1,
       calls := [CallLPop ''tasks:node:600000000000000000000001'', CallGetById oid1]\<rparr>)"
    by (simp add: Fetch_load_def model_GetById_def spec_collab_def Unmarshal_env1 store_GetById_def
        node1_def Hex_oid2 sys0_def ext2_def task1_def)
  from Fetch_node_queue_first [OF h1 h2] env1_not_empty load
  have "Fetch spec_collab ?st =
    (Inr task1, ?st\<lparr>world := ?w1,
       calls := [CallLPop ''tasks:node:600000000000000000000001'', CallGetById oid1]\<rparr>)"
    by simp
  then show ?thesis
    using h1 h2 env1_not_empty by (simp add: ext2_def)
qed

section \<open>\<^verbatim>\<open>Fetch\<close> on empty queues\<close>

text \<open>
  C9. When the pop of the shared queue yields the empty message and no error, after
  the pop of the node's queue (if the service has a node identity) has yielded the
  empty message, \<^verbatim>\<open>Fetch\<close> returns \<^verbatim>\<open>ErrNoTasksAvailable\<close>; it has made these pops and no
  other call.
\<close>

theorem Fetch_no_tasks:
  "(Node (opts (svc st)) = None \<and> LPop c ''tasks:public'' (world st) = (([], None), w2) \<longrightarrow>
      Fetch c st =
        (Inl ErrNoTasksAvailable, st\<lparr>world := w2, calls := calls st @ [CallLPop ''tasks:public'']\<rparr>)) \<and>
   (Node (opts (svc st)) = Some n \<and>
    LPop c (''tasks:node:'' @ Hex (node_Id n)) (world st) = (([], err), w1) \<and>
    LPop c ''tasks:public'' w1 = (([], None), w2) \<longrightarrow>
      Fetch c st =
        (Inl ErrNoTasksAvailable,
         st\<lparr>world := w2,
            calls := calls st @ [CallLPop (''tasks:node:'' @ Hex (node_Id n)), CallLPop ''tasks:public'']\<rparr>))"
proof (intro conjI impI)
  assume "Node (opts (svc st)) = None \<and> LPop c ''tasks:public'' (world st) = (([], None), w2)"
  then show "Fetch c st =
        (Inl ErrNoTasksAvailable, st\<lparr>world := w2, calls := calls st @ [CallLPop ''tasks:public'']\<rparr>)"
    by (simp add: Fetch_without_node)
next
  assume a: "Node (opts (svc st)) = Some n \<and>
    LPop c (''tasks:node:'' @ Hex (node_Id n)) (world st) = (([], err), w1) \<and>
    LPop c ''tasks:public'' w1 = (([], None), w2)"
  then have "Node (opts (svc st)) = Some n"
    and "LPop c (''tasks:node:'' @ Hex (node_Id n)) (world st) = (([], err), w1)"
    and p: "LPop c ''tasks:public'' w1 = (([], None), w2)"
    by simp_all
  from Fetch_with_node [OF this(1,2)] p
  show "Fetch c st =
        (Inl ErrNoTasksAvailable,
         st\<lparr>world := w2,
            calls := calls st @ [CallLPop (''tasks:node:'' @ Hex (node_Id n)), CallLPop ''tasks:public'']\<rparr>)"
    by (simp add: Let_def)
qed

theorem Fetch_no_tasks_witness:
  "Node (opts (svc (sys0 None ext0))) = None \<and>
   LPop spec_collab ''tasks:public'' (world (sys0 None ext0)) = (([], None), ext0) \<and>
   fst (Fetch spec_collab (sys0 None ext0)) = Inl ErrNoTasksAvailable \<and>
   Node (opts (svc (sys0 (Some worker_opts) ext0))) = Some node1 \<and>
   LPop spec_collab (''tasks:node:'' @ Hex (node_Id node1)) (world (sys0 (Some worker_opts) ext0)) =
     (([], None), ext0) \<and>
   fst (Fetch spec_collab (sys0 (Some worker_opts) ext0)) = Inl ErrNoTasksAvailable"
proof -
  have a1: "Node (opts (svc (sys0 None ext0))) = None"
    by (simp add: sys0_def NewTaskService_def)
  have a2: "LPop spec_collab ''tasks:public'' (world (sys0 None ext0)) = (([], None), ext0)"
    by (simp add: spec_collab_def broker_LPop_def sys0_def ext0_def)
  have b1: "Node (opts (svc (sys0 (Some worker_opts) ext0))) = Some node1"
    by (simp add: sys0_def NewTaskService_def worker_opts_def)
  have b2: "LPop spec_collab (''tasks:node:'' @ Hex (node_Id node1))
      (world (sys0 (Some worker_opts) ext0)) = (([], None), ext0)"
    by (simp add: spec_collab_def broker_LPop_def sys0_def ext0_def)
  have b3: "LPop spec_collab ''tasks:public'' ext0 = (([], None), ext0)"
    using a2 by (simp add: sys0_def)
  show ?thesis
    using a1 a2 b1 b2 b3
      Fetch_no_tasks [of "sys0 None ext0" spec_collab ext0]
      Fetch_no_tasks [of "sys0 (Some worker_opts) ext0" spec_collab ext0 node1 None ext0]
    by simp
qed

section \<open>An error of the node's queue\<close>

text \<open>
  C10. For a service with a node identity: when the pop of the node's queue fails with
  an error and the empty message, \<^verbatim>\<open>Fetch\<close> goes on to pop the shared queue, and what
  it returns is settled by that pop and by the decoding and the lookup after it.
  Whatever the pop of the node's queue returns, its error has no part in the result:
  replacing this error by any other, or by none, leaves \<^verbatim>\<open>Fetch\<close> as it is.
\<close>

theorem Fetch_discards_node_pop_error:
  assumes "Node (opts (svc st)) = Some n"
  shows "(LPop c (''tasks:node:'' @ Hex (node_Id n)) (world st) = (([], Some e), w1) \<longrightarrow>
           Fetch c st =
             (case LPop c ''tasks:public'' w1 of
                ((msg2, e2), w2) \<Rightarrow>
                  (let st2 = st\<lparr>world := w2,
                               calls := calls st @ [CallLPop (''tasks:node:'' @ Hex (node_Id n)),
                                                   CallLPop ''tasks:public'']\<rparr> in
                   case e2 of
                     Some err2 \<Rightarrow> (Inl err2, st2)
                   | None \<Rightarrow>
                       if msg2 = [] then (Inl ErrNoTasksAvailable, st2)
                       else Fetch_load c msg2 st2))) \<and>
         Fetch (with_pop_error (''tasks:node:'' @ Hex (node_Id n)) f c) st = Fetch c st"
proof (intro conjI impI)
  assume "LPop c (''tasks:node:'' @ Hex (node_Id n)) (world st) = (([], Some e), w1)"
  from Fetch_with_node [OF assms this]
  show "Fetch c st =
             (case LPop c ''tasks:public'' w1 of
                ((msg2, e2), w2) \<Rightarrow>
                  (let st2 = st\<lparr>world := w2,
                               calls := calls st @ [CallLPop (''tasks:node:'' @ Hex (node_Id n)),
                                                   CallLPop ''tasks:public'']\<rparr> in
                   case e2 of
                     Some err2 \<Rightarrow> (Inl err2, st2)
                   | None \<Rightarrow>
                       if msg2 = [] then (Inl ErrNoTasksAvailable, st2)
                       else Fetch_load c msg2 st2))"
    by (simp add: Let_def)
next
  let ?q = "''tasks:node:'' @ Hex (node_Id n)"
  let ?c = "with_pop_error ?q f c"
  obtain msg err w1 where p: "LPop c ?q (world st) = ((msg, err), w1)"
    by (metis surj_pair)
  then have p': "LPop ?c ?q (world st) = ((msg, f err), w1)"
    by (simp add: with_pop_error_def)
  have pub: "LPop ?c ''tasks:public'' = LPop c ''tasks:public''"
    by (simp add: with_pop_error_def fun_eq_iff)
  show "Fetch ?c st = Fetch c st"
    unfolding Fetch_with_node [OF assms p] Fetch_with_node [OF assms p'] pub
    by (simp add: Let_def split: prod.splits option.splits)
qed

theorem Fetch_discards_node_pop_error_witness:
  "Node (opts (svc (sys0 (Some worker_opts) ext2_node_down))) = Some node1 \<and>
   LPop spec_collab (''tasks:node:'' @ Hex (node_Id node1))
     (world (sys0 (Some worker_opts) ext2_node_down)) =
     (([], Some (ErrOther ''connection refused'')), ext2_node_down) \<and>
   fst (Fetch spec_collab (sys0 (Some worker_opts) ext2_node_down)) = Inr task3 \<and>
   calls (snd (Fetch spec_collab (sys0 (Some worker_opts) ext2_node_down))) =
     [CallLPop ''tasks:node:600000000000000000000001'', CallLPop ''tasks:public'',
      CallGetById oid3]"
proof -
  let ?st = "sys0 (Some worker_opts) ext2_node_down"
  let ?w2 = "ext2_node_down\<lparr>queues := (queues ext2_node_down)(''tasks:public'' := [])\<rparr>"
  have h1: "Node (opts (svc ?st)) = Some node1"
    by (simp add: sys0_def NewTaskService_def worker_opts_def)
  have h2: "LPop spec_collab (''tasks:node:'' @ Hex (node_Id node1)) (world ?st) =
      (([], Some (ErrOther ''connection refused'')), ext2_node_down)"
    by (simp add: node1_def Hex_oid2 spec_collab_def broker_LPop_def sys0_def ext2_node_down_def)
  have pub: "LPop spec_collab ''tasks:public'' ext2_node_down = ((env3, None), ?w2)"
    by (simp add: spec_collab_def broker_LPop_def ext2_node_down_def ext2_def)
  have load: "Fetch_load spec_collab env3
      (?st\<lparr>world := ?w2,
           calls := calls ?st @ [CallLPop (''tasks:node:'' @ Hex (node_Id node1)),
                                CallLPop ''tasks:public'']\<rparr>) =
    (Inr task3, ?st\<lparr>world := ?w2,
       calls := [CallLPop ''tasks:node:600000000000000000000001'', CallLPop ''tasks:public'',
                 CallGetById oid3]\<rparr>)"
    by (simp add: Fetch_load_def model_GetById_def spec_collab_def Unmarshal_env3 store_GetById_def
        node1_def Hex_oid2 sys0_def ext2_node_down_def ext2_def task1_def task3_def oids_distinct)
  from Fetch_discards_node_pop_error [OF h1, of spec_collab "ErrOther ''connection refused''"
      ext2_node_down id] h2 pub env3_not_empty load
  have "Fetch spec_collab ?st =
    (Inr task3, ?st\<lparr>world := ?w2,
       calls := [CallLPop ''tasks:node:600000000000000000000001'', CallLPop ''tasks:public'',
                 CallGetById oid3]\<rparr>)"
    by simp
  then show ?thesis
    using h1 h2 by simp
qed

section \<open>\<^verbatim>\<open>Assign\<close>: the role, the queue, the order of push and write\<close>

text \<open>
  C3. On a service that is not a master \<^verbatim>\<open>Assign\<close> fails with \<^verbatim>\<open>ErrForbidden\<close> and the
  state is as before; on a master whose message cannot be serialized it returns the
  error of the serialization, the state as before. On a master, with \<open>m\<close> the
  serialized message that carries the identifier of the task, the first call is the
  push of \<open>m\<close> to \<^verbatim>\<open>tasks:public\<close> when the target node identifier is zero and to
  \<^verbatim>\<open>tasks:node:<hex of the node id>\<close> otherwise. When the push fails \<^verbatim>\<open>Assign\<close> returns
  its error and has called nothing else. When it succeeds \<^verbatim>\<open>Assign\<close> is \<^verbatim>\<open>saveTask\<close>
  with the status \<^verbatim>\<open>pending\<close> on the state the push left: it looks the record up, and
  then, when the store has no such record, inserts the task with the status
  \<^verbatim>\<open>pending\<close> and returns what the insert returns; when the store has the record,
  updates it to the task with the status \<^verbatim>\<open>pending\<close> and returns what the update
  returns; on any other error of the lookup, returns that error and writes nothing.
\<close>

theorem Assign_routes_then_saves:
  "(\<not> IsMaster (opts (svc st)) \<longrightarrow> Assign c t st = (Some ErrForbidden, st)) \<and>
   (IsMaster (opts (svc st)) \<and> ToString c \<lparr>msg_Id = task_Id t\<rparr> = Inl serr \<longrightarrow>
      Assign c t st = (Some serr, st)) \<and>
   (IsMaster (opts (svc st)) \<and> ToString c \<lparr>msg_Id = task_Id t\<rparr> = Inr m \<and>
    q = (if IsZero (task_NodeId t) then ''tasks:public''
         else ''tasks:node:'' @ Hex (task_NodeId t)) \<and>
    RPush c q m (world st) = (res, w1) \<and>
    GetById c (task_Id t) w1 = (r, w2) \<longrightarrow>
      (case res of
         Some err \<Rightarrow>
           Assign c t st = (Some err, st\<lparr>world := w1, calls := calls st @ [CallRPush q m]\<rparr>)
       | None \<Rightarrow>
           Assign c t st =
             saveTask c t ''pending'' (st\<lparr>world := w1, calls := calls st @ [CallRPush q m]\<rparr>) \<and>
           (\<exists>rest. calls (snd (Assign c t st)) =
                     calls st @ CallRPush q m # CallGetById (task_Id t) # rest \<and>
                   (rest = [] \<or> rest = [CallAdd (t\<lparr>task_Status := ''pending''\<rparr>)] \<or>
                    rest = [CallSave (t\<lparr>task_Status := ''pending''\<rparr>)])) \<and>
           (case r of
              Inl lerr \<Rightarrow>
                if lerr = ErrNoDocuments then
                  (case Add c (t\<lparr>task_Status := ''pending''\<rparr>) w2 of
                     (e, w3) \<Rightarrow>
                       Assign c t st =
                         (e, st\<lparr>world := w3,
                               calls := calls st @ [CallRPush q m, CallGetById (task_Id t),
                                                   CallAdd (t\<lparr>task_Status := ''pending''\<rparr>)]\<rparr>))
                else
                  Assign c t st =
                    (Some lerr, st\<lparr>world := w2,
                                   calls := calls st @ [CallRPush q m, CallGetById (task_Id t)]\<rparr>)
            | Inr found \<Rightarrow>
                (case Save c (t\<lparr>task_Status := ''pending''\<rparr>) w2 of
                   (e, w3) \<Rightarrow>
                     Assign c t st =
                       (e, st\<lparr>world := w3,
                             calls := calls st @ [CallRPush q m, CallGetById (task_Id t),
                                                 CallSave (t\<lparr>task_Status := ''pending''\<rparr>)]\<rparr>)))))"
proof (intro conjI impI)
  assume "\<not> IsMaster (opts (svc st))"
  then show "Assign c t st = (Some ErrForbidden, st)"
    by (simp add: Assign_def)
next
  assume "IsMaster (opts (svc st)) \<and> ToString c \<lparr>msg_Id = task_Id t\<rparr> = Inl serr"
  then show "Assign c t st = (Some serr, st)"
    by (simp add: Assign_def)
next
  assume a: "IsMaster (opts (svc st)) \<and> ToString c \<lparr>msg_Id = task_Id t\<rparr> = Inr m \<and>
    q = (if IsZero (task_NodeId t) then ''tasks:public''
         else ''tasks:node:'' @ Hex (task_NodeId t)) \<and>
    RPush c q m (world st) = (res, w1) \<and>
    GetById c (task_Id t) w1 = (r, w2)"
  let ?st1 = "st\<lparr>world := w1, calls := calls st @ [CallRPush q m]\<rparr>"
  let ?t' = "t\<lparr>task_Status := ''pending''\<rparr>"
  from a have qd: "q = (if IsZero (task_NodeId t) then ''tasks:public''
         else ''tasks:node:'' @ Hex (task_NodeId t))"
    by blast
  have q: "queue_of t = q"
    by (simp only: qd queue_of_eq)
  from a have m: "IsMaster (opts (svc st))" and ts: "ToString c \<lparr>msg_Id = task_Id t\<rparr> = Inr m"
    by blast+
  from a have push: "RPush c (queue_of t) m (world st) = (res, w1)"
    unfolding q by blast
  from a have g: "GetById c (task_Id t) (world ?st1) = (r, w2)"
    by simp
  have "Assign c t st =
      (case res of
         Some err \<Rightarrow> (Some err, st\<lparr>world := w1, calls := calls st @ [CallRPush (queue_of t) m]\<rparr>)
       | None \<Rightarrow>
           saveTask c t StatusPending
             (st\<lparr>world := w1, calls := calls st @ [CallRPush (queue_of t) m]\<rparr>))"
    using m ts by (simp add: Assign_def redis_RPush_def push split: option.splits)
  then have eq: "Assign c t st =
      (case res of Some err \<Rightarrow> (Some err, ?st1) | None \<Rightarrow> saveTask c t StatusPending ?st1)"
    unfolding q .
  have sv: "saveTask c t ''pending'' ?st1 =
    (case r of
       Inl lerr \<Rightarrow>
         if lerr = ErrNoDocuments then
           (case Add c ?t' w2 of
              (e, w3) \<Rightarrow>
                (e, st\<lparr>world := w3,
                      calls := calls st @ [CallRPush q m, CallGetById (task_Id t), CallAdd ?t']\<rparr>))
         else (Some lerr, st\<lparr>world := w2,
                             calls := calls st @ [CallRPush q m, CallGetById (task_Id t)]\<rparr>)
     | Inr found \<Rightarrow>
         (case Save c ?t' w2 of
            (e, w3) \<Rightarrow>
              (e, st\<lparr>world := w3,
                    calls := calls st @ [CallRPush q m, CallGetById (task_Id t), CallSave ?t']\<rparr>)))"
    unfolding saveTask_unfold [OF g]
    by (simp add: Let_def split: sum.splits prod.splits)
  show "case res of
         Some err \<Rightarrow>
           Assign c t st = (Some err, st\<lparr>world := w1, calls := calls st @ [CallRPush q m]\<rparr>)
       | None \<Rightarrow>
           Assign c t st =
             saveTask c t ''pending'' (st\<lparr>world := w1, calls := calls st @ [CallRPush q m]\<rparr>) \<and>
           (\<exists>rest. calls (snd (Assign c t st)) =
                     calls st @ CallRPush q m # CallGetById (task_Id t) # rest \<and>
                   (rest = [] \<or> rest = [CallAdd (t\<lparr>task_Status := ''pending''\<rparr>)] \<or>
                    rest = [CallSave (t\<lparr>task_Status := ''pending''\<rparr>)])) \<and>
           (case r of
              Inl lerr \<Rightarrow>
                if lerr = ErrNoDocuments then
                  (case Add c (t\<lparr>task_Status := ''pending''\<rparr>) w2 of
                     (e, w3) \<Rightarrow>
                       Assign c t st =
                         (e, st\<lparr>world := w3,
                               calls := calls st @ [CallRPush q m, CallGetById (task_Id t),
                                                   CallAdd (t\<lparr>task_Status := ''pending''\<rparr>)]\<rparr>))
                else
                  Assign c t st =
                    (Some lerr, st\<lparr>world := w2,
                                   calls := calls st @ [CallRPush q m, CallGetById (task_Id t)]\<rparr>)
            | Inr found \<Rightarrow>
                (case Save c (t\<lparr>task_Status := ''pending''\<rparr>) w2 of
                   (e, w3) \<Rightarrow>
                     Assign c t st =
                       (e, st\<lparr>world := w3,
                             calls := calls st @ [CallRPush q m, CallGetById (task_Id t),
                                                 CallSave (t\<lparr>task_Status := ''pending''\<rparr>)]\<rparr>)))"
  proof (cases res)
    case (Some err)
    with eq show ?thesis by simp
  next
    case None
    with eq have e: "Assign c t st = saveTask c t ''pending'' ?st1"
      by (simp add: StatusPending_def)
    have tail: "\<exists>rest. calls (snd (Assign c t st)) =
                     calls st @ CallRPush q m # CallGetById (task_Id t) # rest \<and>
                   (rest = [] \<or> rest = [CallAdd ?t'] \<or> rest = [CallSave ?t'])"
      using saveTask_calls [of c t "''pending''" ?st1] e by (auto simp: StatusPending_def)
    have pin: "case r of
              Inl lerr \<Rightarrow>
                if lerr = ErrNoDocuments then
                  (case Add c ?t' w2 of
                     (e, w3) \<Rightarrow>
                       Assign c t st =
                         (e, st\<lparr>world := w3,
                               calls := calls st @ [CallRPush q m, CallGetById (task_Id t),
                                                   CallAdd ?t']\<rparr>))
                else
                  Assign c t st =
                    (Some lerr, st\<lparr>world := w2,
                                   calls := calls st @ [CallRPush q m, CallGetById (task_Id t)]\<rparr>)
            | Inr found \<Rightarrow>
                (case Save c ?t' w2 of
                   (e, w3) \<Rightarrow>
                     Assign c t st =
                       (e, st\<lparr>world := w3,
                             calls := calls st @ [CallRPush q m, CallGetById (task_Id t),
                                                 CallSave ?t']\<rparr>))"
      unfolding e sv by (simp split: sum.splits prod.splits)
    show ?thesis
      using None e tail pin by simp
  qed
qed

theorem Assign_routes_then_saves_witness:
  "\<not> IsMaster (opts (svc (sys0 None ext0))) \<and>
   Assign spec_collab task1 (sys0 None ext0) = (Some ErrForbidden, sys0 None ext0) \<and>
   IsMaster (opts (svc (sys0 (Some master_opts) ext0))) \<and>
   ToString spec_collab \<lparr>msg_Id = task_Id task1\<rparr> = Inr env1 \<and>
   \<not> IsZero (task_NodeId task1) \<and>
   ''tasks:node:'' @ Hex (task_NodeId task1) = ''tasks:node:600000000000000000000001'' \<and>
   RPush spec_collab ''tasks:node:600000000000000000000001'' env1 (world (sys0 (Some master_opts) ext0)) =
     (None, ext1\<lparr>tasks := []\<rparr>) \<and>
   GetById spec_collab oid1 (ext1\<lparr>tasks := []\<rparr>) = (Inl ErrNoDocuments, ext1\<lparr>tasks := []\<rparr>) \<and>
   Assign spec_collab (task1\<lparr>task_Status := []\<rparr>) (sys0 (Some master_opts) ext0) =
     (None, (sys0 (Some master_opts) ext0)
              \<lparr>world := ext1,
               calls := [CallRPush ''tasks:node:600000000000000000000001'' env1,
                         CallGetById oid1, CallAdd task1]\<rparr>) \<and>
   GetById spec_collab oid1 (ext1\<lparr>tasks := [task1\<lparr>task_Status := ''finished''\<rparr>]\<rparr>) =
     (Inr (task1\<lparr>task_Status := ''finished''\<rparr>),
      ext1\<lparr>tasks := [task1\<lparr>task_Status := ''finished''\<rparr>]\<rparr>) \<and>
   Assign spec_collab (task1\<lparr>task_Status := ''finished''\<rparr>)
       (sys0 (Some master_opts) (ext0\<lparr>tasks := [task1\<lparr>task_Status := ''finished''\<rparr>]\<rparr>)) =
     (None, (sys0 (Some master_opts) (ext0\<lparr>tasks := [task1\<lparr>task_Status := ''finished''\<rparr>]\<rparr>))
              \<lparr>world := ext1,
               calls := [CallRPush ''tasks:node:600000000000000000000001'' env1,
                         CallGetById oid1, CallSave task1]\<rparr>) \<and>
   Assign spec_collab task1 (sys0 (Some master_opts) (ext0\<lparr>store_fault := Some (ErrOther ''timeout'')\<rparr>)) =
     (Some (ErrOther ''timeout''),
      (sys0 (Some master_opts) (ext0\<lparr>store_fault := Some (ErrOther ''timeout'')\<rparr>))
        \<lparr>world := ext1\<lparr>tasks := [], store_fault := Some (ErrOther ''timeout'')\<rparr>,
         calls := [CallRPush ''tasks:node:600000000000000000000001'' env1, CallGetById oid1]\<rparr>) \<and>
   Assign spec_collab task1
       (sys0 (Some master_opts)
          (ext0\<lparr>faults := (\<lambda>q. None)(''tasks:node:600000000000000000000001'' \<mapsto>
                                         ErrOther ''connection refused'')\<rparr>)) =
     (Some (ErrOther ''connection refused''),
      (sys0 (Some master_opts)
          (ext0\<lparr>faults := (\<lambda>q. None)(''tasks:node:600000000000000000000001'' \<mapsto>
                                         ErrOther ''connection refused'')\<rparr>))
        \<lparr>calls := [CallRPush ''tasks:node:600000000000000000000001'' env1]\<rparr>)"
proof -
  let ?q = "''tasks:node:600000000000000000000001''"
  let ?new = "task1\<lparr>task_Status := []\<rparr>"
  let ?fin = "task1\<lparr>task_Status := ''finished''\<rparr>"
  let ?wU = "ext0\<lparr>tasks := [?fin]\<rparr>"
  let ?wD = "ext0\<lparr>store_fault := Some (ErrOther ''timeout'')\<rparr>"
  let ?wD1 = "ext1\<lparr>tasks := [], store_fault := Some (ErrOther ''timeout'')\<rparr>"
  let ?wE = "ext0\<lparr>faults := (\<lambda>q. None)(?q \<mapsto> ErrOther ''connection refused'')\<rparr>"
  have pend: "?new\<lparr>task_Status := ''pending''\<rparr> = task1" "?fin\<lparr>task_Status := ''pending''\<rparr> = task1"
    "task1\<lparr>task_Status := ''pending''\<rparr> = task1"
    by (simp_all add: task1_def)
  have ids: "task_Id ?new = oid1" "task_Id ?fin = oid1" "task_Id task1 = oid1"
    "task_NodeId ?new = oid2" "task_NodeId ?fin = oid2" "task_NodeId task1 = oid2"
    by (simp_all add: task1_def)
  have n: "\<not> IsMaster (opts (svc (sys0 None ext0)))"
    by (simp add: sys0_def NewTaskService_def)
  have h1: "IsMaster (opts (svc (sys0 (Some master_opts) w)))" for w
    by (simp add: sys0_def NewTaskService_def master_opts_def)
  have h2: "ToString spec_collab \<lparr>msg_Id = oid1\<rparr> = Inr env1"
    by (simp add: spec_collab_def codec_ToString_def Hex_oid1 env1_def)
  have z: "\<not> IsZero oid2"
    by (simp add: IsZero_oids)
  have w: "world (sys0 (Some master_opts) w) = w" "calls (sys0 (Some master_opts) w) = []" for w
    by (simp_all add: sys0_def)
  have pushB: "RPush spec_collab ?q env1 ext0 = (None, ext1\<lparr>tasks := []\<rparr>)"
    by (simp add: spec_collab_def broker_RPush_def ext0_def ext1_def)
  have getB: "GetById spec_collab oid1 (ext1\<lparr>tasks := []\<rparr>) = (Inl ErrNoDocuments, ext1\<lparr>tasks := []\<rparr>)"
    by (simp add: spec_collab_def store_GetById_def ext1_def)
  have addB: "Add spec_collab task1 (ext1\<lparr>tasks := []\<rparr>) = (None, ext1)"
    by (simp add: spec_collab_def store_Add_def ext1_def)
  have hB: "IsMaster (opts (svc (sys0 (Some master_opts) ext0))) \<and>
      ToString spec_collab \<lparr>msg_Id = task_Id ?new\<rparr> = Inr env1 \<and>
      ?q = (if IsZero (task_NodeId ?new) then ''tasks:public''
            else ''tasks:node:'' @ Hex (task_NodeId ?new)) \<and>
      RPush spec_collab ?q env1 (world (sys0 (Some master_opts) ext0)) = (None, ext1\<lparr>tasks := []\<rparr>) \<and>
      GetById spec_collab (task_Id ?new) (ext1\<lparr>tasks := []\<rparr>) =
        (Inl ErrNoDocuments, ext1\<lparr>tasks := []\<rparr>)"
    by (simp add: ids w h1 h2 z Hex_oid2 pushB getB)
  have B: "Assign spec_collab ?new (sys0 (Some master_opts) ext0) =
     (None, (sys0 (Some master_opts) ext0)
              \<lparr>world := ext1, calls := [CallRPush ?q env1, CallGetById oid1, CallAdd task1]\<rparr>)"
    using Assign_routes_then_saves [where st = "sys0 (Some master_opts) ext0" and c = spec_collab
        and t = ?new and m = env1 and q = ?q and res = None and ?w1.0 = "ext1\<lparr>tasks := []\<rparr>"
        and r = "Inl ErrNoDocuments" and ?w2.0 = "ext1\<lparr>tasks := []\<rparr>",
        THEN conjunct2, THEN conjunct2, THEN mp, OF hB, simplified option.case,
        THEN conjunct2, THEN conjunct2]
    by (simp add: addB pend ids w)
  have pushC: "RPush spec_collab ?q env1 ?wU = (None, ext1\<lparr>tasks := [?fin]\<rparr>)"
    by (simp add: spec_collab_def broker_RPush_def ext0_def ext1_def)
  have getC: "GetById spec_collab oid1 (ext1\<lparr>tasks := [?fin]\<rparr>) = (Inr ?fin, ext1\<lparr>tasks := [?fin]\<rparr>)"
    by (simp add: spec_collab_def store_GetById_def ext1_def ids)
  have saveC: "Save spec_collab task1 (ext1\<lparr>tasks := [?fin]\<rparr>) = (None, ext1)"
    by (simp add: spec_collab_def store_Save_def ext1_def ids)
  have hC: "IsMaster (opts (svc (sys0 (Some master_opts) ?wU))) \<and>
      ToString spec_collab \<lparr>msg_Id = task_Id ?fin\<rparr> = Inr env1 \<and>
      ?q = (if IsZero (task_NodeId ?fin) then ''tasks:public''
            else ''tasks:node:'' @ Hex (task_NodeId ?fin)) \<and>
      RPush spec_collab ?q env1 (world (sys0 (Some master_opts) ?wU)) = (None, ext1\<lparr>tasks := [?fin]\<rparr>) \<and>
      GetById spec_collab (task_Id ?fin) (ext1\<lparr>tasks := [?fin]\<rparr>) =
        (Inr ?fin, ext1\<lparr>tasks := [?fin]\<rparr>)"
    by (simp add: ids w h1 h2 z Hex_oid2 pushC getC)
  have C: "Assign spec_collab ?fin (sys0 (Some master_opts) ?wU) =
     (None, (sys0 (Some master_opts) ?wU)
              \<lparr>world := ext1, calls := [CallRPush ?q env1, CallGetById oid1, CallSave task1]\<rparr>)"
    using Assign_routes_then_saves [where st = "sys0 (Some master_opts) ?wU" and c = spec_collab
        and t = ?fin and m = env1 and q = ?q and res = None and ?w1.0 = "ext1\<lparr>tasks := [?fin]\<rparr>"
        and r = "Inr ?fin" and ?w2.0 = "ext1\<lparr>tasks := [?fin]\<rparr>",
        THEN conjunct2, THEN conjunct2, THEN mp, OF hC, simplified option.case,
        THEN conjunct2, THEN conjunct2]
    by (simp add: saveC pend ids w)
  have pushD: "RPush spec_collab ?q env1 ?wD = (None, ?wD1)"
    by (simp add: spec_collab_def broker_RPush_def ext0_def ext1_def)
  have getD: "GetById spec_collab oid1 ?wD1 = (Inl (ErrOther ''timeout''), ?wD1)"
    by (simp add: spec_collab_def store_GetById_def)
  have hD: "IsMaster (opts (svc (sys0 (Some master_opts) ?wD))) \<and>
      ToString spec_collab \<lparr>msg_Id = task_Id task1\<rparr> = Inr env1 \<and>
      ?q = (if IsZero (task_NodeId task1) then ''tasks:public''
            else ''tasks:node:'' @ Hex (task_NodeId task1)) \<and>
      RPush spec_collab ?q env1 (world (sys0 (Some master_opts) ?wD)) = (None, ?wD1) \<and>
      GetById spec_collab (task_Id task1) ?wD1 = (Inl (ErrOther ''timeout''), ?wD1)"
    by (simp add: ids w h1 h2 z Hex_oid2 pushD getD)
  have D: "Assign spec_collab task1 (sys0 (Some master_opts) ?wD) =
     (Some (ErrOther ''timeout''),
      (sys0 (Some master_opts) ?wD)
        \<lparr>world := ?wD1, calls := [CallRPush ?q env1, CallGetById oid1]\<rparr>)"
    using Assign_routes_then_saves [where st = "sys0 (Some master_opts) ?wD" and c = spec_collab
        and t = task1 and m = env1 and q = ?q and res = None and ?w1.0 = ?wD1
        and r = "Inl (ErrOther ''timeout'')" and ?w2.0 = ?wD1,
        THEN conjunct2, THEN conjunct2, THEN mp, OF hD, simplified option.case,
        THEN conjunct2, THEN conjunct2]
    by (simp add: ids w)
  have pushE: "RPush spec_collab ?q env1 ?wE = (Some (ErrOther ''connection refused''), ?wE)"
    by (simp add: spec_collab_def broker_RPush_def)
  have getE: "GetById spec_collab oid1 ?wE = (Inl ErrNoDocuments, ?wE)"
    by (simp add: spec_collab_def store_GetById_def ext0_def)
  have hE: "IsMaster (opts (svc (sys0 (Some master_opts) ?wE))) \<and>
      ToString spec_collab \<lparr>msg_Id = task_Id task1\<rparr> = Inr env1 \<and>
      ?q = (if IsZero (task_NodeId task1) then ''tasks:public''
            else ''tasks:node:'' @ Hex (task_NodeId task1)) \<and>
      RPush spec_collab ?q env1 (world (sys0 (Some master_opts) ?wE)) =
        (Some (ErrOther ''connection refused''), ?wE) \<and>
      GetById spec_collab (task_Id task1) ?wE = (Inl ErrNoDocuments, ?wE)"
    by (simp add: ids w h1 h2 z Hex_oid2 pushE getE)
  have E: "Assign spec_collab task1 (sys0 (Some master_opts) ?wE) =
     (Some (ErrOther ''connection refused''),
      (sys0 (Some master_opts) ?wE)\<lparr>calls := [CallRPush ?q env1]\<rparr>)"
    using Assign_routes_then_saves [where st = "sys0 (Some master_opts) ?wE" and c = spec_collab
        and t = task1 and m = env1 and q = ?q and res = "Some (ErrOther ''connection refused'')"
        and ?w1.0 = ?wE and r = "Inl ErrNoDocuments" and ?w2.0 = ?wE,
        THEN conjunct2, THEN conjunct2, THEN mp, OF hE, simplified option.case]
    by (simp add: ids w)
  have A: "Assign spec_collab task1 (sys0 None ext0) = (Some ErrForbidden, sys0 None ext0)"
    using Assign_routes_then_saves [where st = "sys0 None ext0" and c = spec_collab and t = task1] n
    by simp
  have qn: "''tasks:node:'' @ Hex (task_NodeId task1) = ?q"
    by (simp add: ids Hex_oid2)
  have pushB': "RPush spec_collab ?q env1 (world (sys0 (Some master_opts) ext0)) =
      (None, ext1\<lparr>tasks := []\<rparr>)"
    by (simp add: w pushB)
  have h2': "ToString spec_collab \<lparr>msg_Id = task_Id task1\<rparr> = Inr env1"
    by (simp add: ids h2)
  have z': "\<not> IsZero (task_NodeId task1)"
    by (simp add: ids z)
  show ?thesis
    by (intro conjI n A h1 h2' z' qn pushB' getB B getC C D E)
qed

section \<open>\<^verbatim>\<open>saveTask\<close>: insert or update\<close>

text \<open>
  C6. \<^verbatim>\<open>saveTask\<close> stores the status it is given, and \<^verbatim>\<open>pending\<close> when that is empty.
  It looks the record up by the identifier of the task. When the lookup reports
  \<^verbatim>\<open>ErrNoDocuments\<close> it makes one insert and no update, and returns what the insert
  returns; when the lookup finds a record it makes one update and no insert, and
  returns what the update returns; every other error of the lookup is returned as it
  is, with neither insert nor update.
\<close>

theorem saveTask_upsert:
  assumes "GetById c (task_Id t) (world st) = (r, w1)"
    and "t1 = t\<lparr>task_Status := (if status = [] then StatusPending else status)\<rparr>"
  shows "(status = [] \<longrightarrow> task_Status t1 = ''pending'') \<and>
         (r = Inl ErrNoDocuments \<longrightarrow>
            (case Add c t1 w1 of
               (e, w2) \<Rightarrow>
                 saveTask c t status st =
                   (e, st\<lparr>world := w2, calls := calls st @ [CallGetById (task_Id t), CallAdd t1]\<rparr>))) \<and>
         (\<forall>found. r = Inr found \<longrightarrow>
            (case Save c t1 w1 of
               (e, w2) \<Rightarrow>
                 saveTask c t status st =
                   (e, st\<lparr>world := w2, calls := calls st @ [CallGetById (task_Id t), CallSave t1]\<rparr>))) \<and>
         (\<forall>err. r = Inl err \<and> err \<noteq> ErrNoDocuments \<longrightarrow>
            saveTask c t status st =
              (Some err, st\<lparr>world := w1, calls := calls st @ [CallGetById (task_Id t)]\<rparr>))"
  using saveTask_unfold [OF assms(1), of status] assms(2)
  by (auto simp: Let_def StatusPending_def split: prod.splits)

theorem saveTask_upsert_witness:
  "GetById spec_collab (task_Id (task1\<lparr>task_Status := []\<rparr>)) (world (sys0 None ext0)) =
     (Inl ErrNoDocuments, ext0) \<and>
   saveTask spec_collab (task1\<lparr>task_Status := []\<rparr>) [] (sys0 None ext0) =
     (None, (sys0 None ext0)\<lparr>world := ext0\<lparr>tasks := [task1]\<rparr>,
                              calls := [CallGetById oid1, CallAdd task1]\<rparr>) \<and>
   GetById spec_collab (task_Id task1) (world (sys0 None ext2)) = (Inr task1, ext2) \<and>
   saveTask spec_collab task1 ''running'' (sys0 None ext2) =
     (None, (sys0 None ext2)\<lparr>world := ext2\<lparr>tasks := [task1\<lparr>task_Status := ''running''\<rparr>, task3]\<rparr>,
                              calls := [CallGetById oid1,
                                        CallSave (task1\<lparr>task_Status := ''running''\<rparr>)]\<rparr>) \<and>
   GetById spec_collab (task_Id task1)
     (world (sys0 None (ext2\<lparr>store_fault := Some (ErrOther ''timeout'')\<rparr>))) =
     (Inl (ErrOther ''timeout''), ext2\<lparr>store_fault := Some (ErrOther ''timeout'')\<rparr>) \<and>
   saveTask spec_collab task1 ''running''
     (sys0 None (ext2\<lparr>store_fault := Some (ErrOther ''timeout'')\<rparr>)) =
     (Some (ErrOther ''timeout''),
      (sys0 None (ext2\<lparr>store_fault := Some (ErrOther ''timeout'')\<rparr>))\<lparr>calls := [CallGetById oid1]\<rparr>)"
proof -
  let ?down = "ext2\<lparr>store_fault := Some (ErrOther ''timeout'')\<rparr>"
  have a: "GetById spec_collab (task_Id (task1\<lparr>task_Status := []\<rparr>)) (world (sys0 None ext0)) =
      (Inl ErrNoDocuments, ext0)"
    by (simp add: spec_collab_def store_GetById_def sys0_def ext0_def)
  have a': "task1 = task1\<lparr>task_Status := []\<rparr>\<lparr>task_Status := (if [] = ([]::string) then StatusPending else [])\<rparr>"
    by (simp add: task1_def StatusPending_def)
  have add: "Add spec_collab task1 ext0 = (None, ext0\<lparr>tasks := [task1]\<rparr>)"
    by (simp add: spec_collab_def store_Add_def ext0_def)
  have b: "GetById spec_collab (task_Id task1) (world (sys0 None ext2)) = (Inr task1, ext2)"
    by (simp add: spec_collab_def store_GetById_def sys0_def ext2_def task1_def)
  have b': "task1\<lparr>task_Status := ''running''\<rparr> =
      task1\<lparr>task_Status := (if ''running'' = [] then StatusPending else ''running'')\<rparr>"
    by simp
  have save: "Save spec_collab (task1\<lparr>task_Status := ''running''\<rparr>) ext2 =
      (None, ext2\<lparr>tasks := [task1\<lparr>task_Status := ''running''\<rparr>, task3]\<rparr>)"
    by (simp add: spec_collab_def store_Save_def ext2_def task1_def task3_def oids_distinct)
  have c: "GetById spec_collab (task_Id task1) (world (sys0 None ?down)) =
      (Inl (ErrOther ''timeout''), ?down)"
    by (simp add: spec_collab_def store_GetById_def sys0_def)
  have "saveTask spec_collab (task1\<lparr>task_Status := []\<rparr>) [] (sys0 None ext0) =
     (None, (sys0 None ext0)\<lparr>world := ext0\<lparr>tasks := [task1]\<rparr>,
                              calls := [CallGetById oid1, CallAdd task1]\<rparr>)"
    using saveTask_upsert [OF a a'] add by (simp add: sys0_def task1_def)
  moreover have "saveTask spec_collab task1 ''running'' (sys0 None ext2) =
     (None, (sys0 None ext2)\<lparr>world := ext2\<lparr>tasks := [task1\<lparr>task_Status := ''running''\<rparr>, task3]\<rparr>,
                              calls := [CallGetById oid1,
                                        CallSave (task1\<lparr>task_Status := ''running''\<rparr>)]\<rparr>)"
    using saveTask_upsert [OF b b'] save by (simp add: sys0_def task1_def)
  moreover have "saveTask spec_collab task1 ''running'' (sys0 None ?down) =
     (Some (ErrOther ''timeout''), (sys0 None ?down)\<lparr>calls := [CallGetById oid1]\<rparr>)"
    using saveTask_upsert [OF c b'] by (simp add: sys0_def task1_def)
  ultimately show ?thesis
    using a b c by simp
qed

section \<open>The loop at the ceiling\<close>

text \<open>
  C7. In an iteration of the loop in which, after the sleep, the counter is at or above
  \<^verbatim>\<open>MaxRunners\<close>, the service does nothing: the iteration ends in the state the sleep
  left (or returns \<^verbatim>\<open>ErrStopped\<close> when the service has been closed), with no call of
  \<^verbatim>\<open>Fetch\<close> or \<^verbatim>\<open>Run\<close>, the queues, the pool and the counter as they were. A loop
  that starts at or above the ceiling, and whose sleeps do not bring the counter
  below it, never consults a collaborator: it runs alike with any others.
\<close>

theorem Init_skips_at_ceiling:
  "(MaxRunners (opts (svc (sleep st))) \<le>s runnersCount (svc (sleep st)) \<longrightarrow>
      Init_iter c sleep st =
        (if \<not> active (svc st) then (Return ErrStopped, st)
         else if \<not> active (svc (sleep st)) then (Return ErrStopped, sleep st)
         else (Continue, sleep st))) \<and>
   ((\<forall>sl \<in> set sleeps. \<forall>s. MaxRunners (opts (svc s)) \<le>s runnersCount (svc s) \<longrightarrow>
        MaxRunners (opts (svc (sl s))) \<le>s runnersCount (svc (sl s))) \<and>
    MaxRunners (opts (svc st0)) \<le>s runnersCount (svc st0) \<longrightarrow>
      Init_loop c sleeps st0 = Init_loop c' sleeps st0)"
  using Init_iter_saturated [of sleep st c] Init_loop_saturated [of sleeps st0 c c']
  by blast

theorem Init_skips_at_ceiling_witness:
  "MaxRunners (opts (svc (id sys_full))) \<le>s runnersCount (svc (id sys_full)) \<and>
   queues (world sys_full) ''tasks:public'' = [env3] \<and>
   Init_iter spec_collab id sys_full = (Continue, sys_full) \<and>
   Init_loop spec_collab [id, Close] sys_full = Some (ErrStopped, Close sys_full) \<and>
   Init_loop (with_pop_error ''tasks:public'' (\<lambda>e. Some ErrForbidden) spec_collab) [id, Close] sys_full =
     Some (ErrStopped, Close sys_full)"
proof -
  let ?c' = "with_pop_error ''tasks:public'' (\<lambda>e. Some ErrForbidden) spec_collab"
  have h: "MaxRunners (opts (svc (id sys_full))) \<le>s runnersCount (svc (id sys_full))"
    by (simp add: sys_full_saturated)
  have a: "active (svc sys_full)"
    by (simp add: sys_full_def)
  have q: "queues (world sys_full) ''tasks:public'' = [env3]"
    by (simp add: sys_full_def ext2_def)
  have cl: "\<forall>sl \<in> set [id, Close]. \<forall>s::ext sys.
        MaxRunners (opts (svc s)) \<le>s runnersCount (svc s) \<longrightarrow>
        MaxRunners (opts (svc (sl s))) \<le>s runnersCount (svc (sl s))"
    by (simp add: Close_def)
  have it: "Init_iter spec_collab id sys_full = (Continue, sys_full)"
    using Init_skips_at_ceiling [of id sys_full spec_collab] h a by simp
  have it2: "Init_iter spec_collab Close sys_full = (Return ErrStopped, Close sys_full)"
    using Init_skips_at_ceiling [of Close sys_full spec_collab] a sys_full_saturated
    by (simp add: Close_def)
  have lp: "Init_loop spec_collab [id, Close] sys_full = Some (ErrStopped, Close sys_full)"
    by (simp add: it it2)
  have "Init_loop spec_collab [id, Close] sys_full = Init_loop ?c' [id, Close] sys_full"
    using Init_skips_at_ceiling [of id sys_full spec_collab "[id, Close]" sys_full ?c']
      cl sys_full_saturated by blast
  with lp have "Init_loop ?c' [id, Close] sys_full = Some (ErrStopped, Close sys_full)"
    by simp
  with h q it lp show ?thesis
    by simp
qed

section \<open>What stops the loop\<close>

text \<open>
  C8. When the \<^verbatim>\<open>Fetch\<close> of an iteration succeeds with a task whose identifier is zero,
  the loop returns \<^verbatim>\<open>ErrEmptyValue\<close> in the state \<^verbatim>\<open>Fetch\<close> left. When the \<^verbatim>\<open>Fetch\<close>
  fails, with \<^verbatim>\<open>ErrNoTasksAvailable\<close> or any other error, the loop goes on with the
  next iteration (the error logged unless it is \<^verbatim>\<open>ErrNoTasksAvailable\<close>). When the
  \<^verbatim>\<open>Fetch\<close> succeeds with a task whose identifier is not zero, the loop calls \<^verbatim>\<open>Run\<close>
  and goes on with the next iteration, whether \<^verbatim>\<open>Run\<close> fails (its error logged) or
  not. A loop that returns returns \<^verbatim>\<open>ErrStopped\<close> with the service no longer active,
  or \<^verbatim>\<open>ErrEmptyValue\<close> in the state left by a \<^verbatim>\<open>Fetch\<close> that succeeded with a zero
  identifier.
\<close>

theorem Init_stops_on_empty_id_only:
  "(active (svc st) \<and> active (svc (sleep st)) \<and>
    \<not> MaxRunners (opts (svc (sleep st))) \<le>s runnersCount (svc (sleep st)) \<and>
    Fetch c (sleep st) = (Inr t, st2) \<and> IsZero (task_Id t) \<longrightarrow>
      Init_loop c (sleep # sleeps) st = Some (ErrEmptyValue, st2)) \<and>
   (active (svc st) \<and> active (svc (sleep st)) \<and>
    \<not> MaxRunners (opts (svc (sleep st))) \<le>s runnersCount (svc (sleep st)) \<and>
    Fetch c (sleep st) = (Inl err, st2) \<longrightarrow>
      Init_loop c (sleep # sleeps) st =
        Init_loop c sleeps
          (if err \<noteq> ErrNoTasksAvailable then log_Error (LogFetchTaskError err) st2 else st2)) \<and>
   (active (svc st) \<and> active (svc (sleep st)) \<and>
    \<not> MaxRunners (opts (svc (sleep st))) \<le>s runnersCount (svc (sleep st)) \<and>
    Fetch c (sleep st) = (Inr t, st2) \<and> \<not> IsZero (task_Id t) \<longrightarrow>
      Init_loop c (sleep # sleeps) st =
        Init_loop c sleeps
          (case Run c (task_Id t) st2 of
             (Some rerr, st3) \<Rightarrow> log_Error (LogRunTaskError rerr) st3
           | (None, st3) \<Rightarrow> st3)) \<and>
   (Init_loop c sleeps0 st0 = Some (e, st') \<longrightarrow>
      (e = ErrStopped \<and> \<not> active (svc st')) \<or>
      (e = ErrEmptyValue \<and> (\<exists>s t. Fetch c s = (Inr t, st') \<and> IsZero (task_Id t))))"
proof (intro conjI impI)
  assume a: "active (svc st) \<and> active (svc (sleep st)) \<and>
    \<not> MaxRunners (opts (svc (sleep st))) \<le>s runnersCount (svc (sleep st)) \<and>
    Fetch c (sleep st) = (Inr t, st2) \<and> IsZero (task_Id t)"
  then have "Init_iter c sleep st = (Return ErrEmptyValue, st2)"
    by (simp add: Init_iter_fetching)
  then show "Init_loop c (sleep # sleeps) st = Some (ErrEmptyValue, st2)"
    by simp
next
  assume a: "active (svc st) \<and> active (svc (sleep st)) \<and>
    \<not> MaxRunners (opts (svc (sleep st))) \<le>s runnersCount (svc (sleep st)) \<and>
    Fetch c (sleep st) = (Inl err, st2)"
  then have "Init_iter c sleep st =
      (Continue, if err \<noteq> ErrNoTasksAvailable then log_Error (LogFetchTaskError err) st2 else st2)"
    by (simp add: Init_iter_fetching)
  then show "Init_loop c (sleep # sleeps) st =
        Init_loop c sleeps
          (if err \<noteq> ErrNoTasksAvailable then log_Error (LogFetchTaskError err) st2 else st2)"
    by simp
next
  assume a: "active (svc st) \<and> active (svc (sleep st)) \<and>
    \<not> MaxRunners (opts (svc (sleep st))) \<le>s runnersCount (svc (sleep st)) \<and>
    Fetch c (sleep st) = (Inr t, st2) \<and> \<not> IsZero (task_Id t)"
  then have "Init_iter c sleep st =
      (Continue,
       case Run c (task_Id t) st2 of
         (Some rerr, st3) \<Rightarrow> log_Error (LogRunTaskError rerr) st3
       | (None, st3) \<Rightarrow> st3)"
    by (simp add: Init_iter_fetching split: prod.splits option.splits)
  then show "Init_loop c (sleep # sleeps) st =
        Init_loop c sleeps
          (case Run c (task_Id t) st2 of
             (Some rerr, st3) \<Rightarrow> log_Error (LogRunTaskError rerr) st3
           | (None, st3) \<Rightarrow> st3)"
    by simp
next
  assume "Init_loop c sleeps0 st0 = Some (e, st')"
  then show "(e = ErrStopped \<and> \<not> active (svc st')) \<or>
      (e = ErrEmptyValue \<and> (\<exists>s t. Fetch c s = (Inr t, st') \<and> IsZero (task_Id t)))"
    by (rule Init_loop_Return)
qed

theorem Init_stops_on_empty_id_only_witness:
  "active (svc (polling ext_zero)) \<and> active (svc (id (polling ext_zero))) \<and>
   \<not> MaxRunners (opts (svc (id (polling ext_zero)))) \<le>s runnersCount (svc (id (polling ext_zero))) \<and>
   fst (Fetch spec_collab (id (polling ext_zero))) = Inr task0 \<and> IsZero (task_Id task0) \<and>
   Init spec_collab [id, id] (sys0 None ext_zero) =
     Some (ErrEmptyValue, snd (Fetch spec_collab (polling ext_zero))) \<and>
   fst (Fetch spec_collab (id (polling ext0))) = Inl ErrNoTasksAvailable \<and>
   Init spec_collab [id, Close] (sys0 None ext0) =
     Some (ErrStopped, Close (snd (Fetch spec_collab (polling ext0)))) \<and>
   fst (Fetch spec_collab (id (polling ext2))) = Inr task3 \<and> \<not> IsZero (task_Id task3) \<and>
   fst (Run spec_collab oid3 (snd (Fetch spec_collab (polling ext2)))) = None \<and>
   Init spec_collab [id] (sys0 None ext2) = None \<and>
   Init spec_collab [id, Close] (sys0 None ext2) =
     Some (ErrStopped, Close (snd (Run spec_collab oid3 (snd (Fetch spec_collab (polling ext2)))))) \<and>
   \<not> active (svc (Close (snd (Run spec_collab oid3 (snd (Fetch spec_collab (polling ext2)))))))"
proof -
  let ?st2 = "snd (Fetch spec_collab (polling ext_zero))"
  let ?st3 = "snd (Fetch spec_collab (polling ext0))"
  let ?st4 = "snd (Fetch spec_collab (polling ext2))"
  let ?st5 = "snd (Run spec_collab oid3 ?st4)"
  have z: "IsZero (task_Id task0)"
    by (simp add: task0_def IsZero_def nil_oid_def)
  have nz: "\<not> IsZero (task_Id task3)"
    by (simp add: task3_def IsZero_def oid3_def)
  have id3: "task_Id task3 = oid3"
    by (simp add: task3_def)
  have f: "Fetch spec_collab (id (polling ext_zero)) = (Inr task0, ?st2)"
    by (simp add: Fetch_zero_id)
  have g: "Fetch spec_collab (id (polling ext0)) = (Inl ErrNoTasksAvailable, ?st3)"
    by (simp add: Fetch_idle)
  have k: "Fetch spec_collab (id (polling ext2)) = (Inr task3, ?st4)"
    by (simp add: Fetch_real_task)
  have a3: "active (svc ?st3)"
    by (simp add: polling_ready)
  have a5: "active (svc ?st5)"
    by (simp add: polling_ready)
  have "runners (svc ?st4) (ObjectIDKey oid3) = None"
    by (simp add: polling_def sys0_def NewTaskService_def)
  then have r1: "fst (Run spec_collab oid3 ?st4) = None"
    by (rule Run_spec_admits)
  have cr: "(case Run spec_collab oid3 ?st4 of
               (Some rerr, st3) \<Rightarrow> log_Error (LogRunTaskError rerr) st3
             | (None, st3) \<Rightarrow> st3) = ?st5"
    using r1 by (cases "Run spec_collab oid3 ?st4") simp
  have "Init_loop spec_collab [id, id] (polling ext_zero) = Some (ErrEmptyValue, ?st2)"
    using Init_stops_on_empty_id_only [where st = "polling ext_zero" and sleep = id
        and c = spec_collab and t = task0 and ?st2.0 = ?st2 and sleeps = "[id]"]
      polling_ready [of ext_zero] f z
    by simp
  then have i1: "Init spec_collab [id, id] (sys0 None ext_zero) = Some (ErrEmptyValue, ?st2)"
    by (simp add: Init_def polling_def)
  have "Init_loop spec_collab [id, Close] (polling ext0) = Init_loop spec_collab [Close] ?st3"
    using Init_stops_on_empty_id_only [where st = "polling ext0" and sleep = id
        and c = spec_collab and err = ErrNoTasksAvailable and ?st2.0 = ?st3 and sleeps = "[Close]"]
      polling_ready [of ext0] g
    by simp
  also have "\<dots> = Some (ErrStopped, Close ?st3)"
    using a3 by (simp add: Init_iter_def Close_def)
  finally have i2: "Init spec_collab [id, Close] (sys0 None ext0) = Some (ErrStopped, Close ?st3)"
    by (simp add: Init_def polling_def)
  have step: "Init_loop spec_collab (id # sleeps) (polling ext2) = Init_loop spec_collab sleeps ?st5"
    for sleeps
    using Init_stops_on_empty_id_only [where st = "polling ext2" and sleep = id
        and c = spec_collab and t = task3 and ?st2.0 = ?st4 and sleeps = sleeps]
      polling_ready [of ext2] k nz
    by (simp add: id3 cr)
  have i3: "Init spec_collab [id] (sys0 None ext2) = None"
    using step [of "[]"] by (simp add: Init_def polling_def)
  have "Init_loop spec_collab [Close] ?st5 = Some (ErrStopped, Close ?st5)"
    using a5 by (simp add: Init_iter_def Close_def)
  with step [of "[Close]"]
  have i4: "Init spec_collab [id, Close] (sys0 None ext2) = Some (ErrStopped, Close ?st5)"
    by (simp add: Init_def polling_def)
  have na: "\<not> active (svc (Close ?st5))"
    using Init_stops_on_empty_id_only [where c = spec_collab and ?sleeps0.0 = "[id, Close]"
        and ?st0.0 = "polling ext2" and e = ErrStopped and st' = "Close ?st5"] i4
    by (simp add: Init_def polling_def)
  have f1: "fst (Fetch spec_collab (id (polling ext_zero))) = Inr task0"
    by (simp add: Fetch_zero_id)
  have g1: "fst (Fetch spec_collab (id (polling ext0))) = Inl ErrNoTasksAvailable"
    by (simp add: Fetch_idle)
  have k1: "fst (Fetch spec_collab (id (polling ext2))) = Inr task3"
    by (simp add: Fetch_real_task)
  show ?thesis
    using polling_ready [of ext_zero] f1 g1 k1 z nz r1 i1 i2 i3 i4 na by simp
qed

end
